theory Spec2Isabelle
  imports
    Complex_Main
    "HOL-Library.Char_ord"
    "HOL-Library.List_Lexorder"
    "HOL-Library.AList"
begin

section \<open>Python strings\<close>

text \<open>
  A Python \<open>str\<close> is modelled as a \<open>string\<close> whose characters are the code points
  below 256. On that range \<open>str.lower\<close> maps \<open>A\<close>-\<open>Z\<close> and the capital letters
  \<open>U+00C0\<close>-\<open>U+00DE\<close> (without the multiplication sign \<open>U+00D7\<close>) 32 places up and
  leaves every other character alone, and \<open>str.isspace\<close> holds of the characters
  \<open>U+0009\<close>-\<open>U+000D\<close>, \<open>U+001C\<close>-\<open>U+0020\<close>, \<open>U+0085\<close> and \<open>U+00A0\<close>.
\<close>

definition lower_char :: "char \<Rightarrow> char" where
  "lower_char c =
     (let n = (of_char c :: nat) in
      if (65 \<le> n \<and> n \<le> 90) \<or> (192 \<le> n \<and> n \<le> 222 \<and> n \<noteq> 215)
      then char_of (n + 32) else c)"

definition py_lower :: "string \<Rightarrow> string" where
  "py_lower s = map lower_char s"

definition isspace :: "char \<Rightarrow> bool" where
  "isspace c \<longleftrightarrow>
     (let n = (of_char c :: nat) in
      (9 \<le> n \<and> n \<le> 13) \<or> (28 \<le> n \<and> n \<le> 32) \<or> n = 133 \<or> n = 160)"

text \<open>\<open>s.strip(chars)\<close>: the characters of the given class are dropped at both ends.\<close>

definition drop_end :: "(char \<Rightarrow> bool) \<Rightarrow> string \<Rightarrow> string" where
  "drop_end P s = rev (dropWhile P (rev s))"

definition strip_chars :: "(char \<Rightarrow> bool) \<Rightarrow> string \<Rightarrow> string" where
  "strip_chars P s = drop_end P (dropWhile P s)"

text \<open>\<open>s.strip()\<close> drops white space at both ends.\<close>

definition py_strip :: "string \<Rightarrow> string" where
  "py_strip s = strip_chars isspace s"

text \<open>\<open>s.replace(old, new)\<close> for one-character \<open>old\<close> and \<open>new\<close>.\<close>

definition replace_char :: "char \<Rightarrow> char \<Rightarrow> string \<Rightarrow> string" where
  "replace_char old new s = map (\<lambda>c. if c = old then new else c) s"

text \<open>
  \<open>re.sub(r"[...]+", repl, s)\<close> for a character class: scanning from the left, every
  maximal run of characters of the class is replaced by \<open>repl\<close>.
\<close>

function re_sub_plus :: "(char \<Rightarrow> bool) \<Rightarrow> string \<Rightarrow> string \<Rightarrow> string" where
  "re_sub_plus P repl [] = []"
| "re_sub_plus P repl (c # cs) =
     (if P c then repl @ re_sub_plus P repl (dropWhile P cs)
      else c # re_sub_plus P repl cs)"
  by pat_completeness auto
termination
  by (relation "measure (\<lambda>(P, repl, s). length s)")
     (auto simp: length_dropWhile_le less_Suc_eq_le)

section \<open>Identifier normalizer\<close>

text \<open>The character class \<open>[a-z0-9/._-]\<close> of \<open>_normalize_id_path\<close>.\<close>

definition id_path_char :: "char \<Rightarrow> bool" where
  "id_path_char c \<longleftrightarrow>
     (CHR ''a'' \<le> c \<and> c \<le> CHR ''z'') \<or> (CHR ''0'' \<le> c \<and> c \<le> CHR ''9'') \<or>
     c = CHR ''/'' \<or> c = CHR ''.'' \<or> c = CHR ''_'' \<or> c = CHR ''-''"

text \<open>The argument \<open>"_./-"\<close> of the final \<open>strip\<close>: the separator characters.\<close>

definition separator_char :: "char \<Rightarrow> bool" where
  "separator_char c \<longleftrightarrow> c \<in> set ''_./-''"

text \<open>
  \<open>_normalize_id_path\<close> up to its last line: the value of \<open>normalized\<close> before
  \<open>normalized or fallback\<close>.
  \<^verbatim>\<open>
  raw = (value or "").lower().strip()
  raw = raw.replace(" ", "_")
  normalized = re.sub(r"[^a-z0-9/._-]+", "_", raw)
  normalized = re.sub(r"_+", "_", normalized).strip("_./-")
  \<close>
\<close>

definition normalized_id_path :: "string option \<Rightarrow> string" where
  "normalized_id_path v =
     (let raw = py_strip (py_lower (case v of None \<Rightarrow> [] | Some s \<Rightarrow> s));
          raw = replace_char (CHR '' '') (CHR ''_'') raw;
          normalized = re_sub_plus (\<lambda>c. \<not> id_path_char c) ''_'' raw
      in strip_chars separator_char (re_sub_plus (\<lambda>c. c = CHR ''_'') ''_'' normalized))"

text \<open>\<open>return normalized or fallback\<close>: the empty string is falsy.\<close>

definition normalize_id_path :: "string option \<Rightarrow> string \<Rightarrow> string" where
  "normalize_id_path v fallback =
     (let normalized = normalized_id_path v in
      if normalized = [] then fallback else normalized)"

text \<open>
  The two steps \<open>re.sub(r"[^a-z0-9/._-]+", "_", raw)\<close> and
  \<open>re.sub(r"_+", "_", normalized)\<close> are compared below with two simpler functions:
  one character outside the class becomes one underscore, and adjacent underscores
  are merged.
\<close>

definition underscore_outside :: "char \<Rightarrow> char" where
  "underscore_outside c = (if id_path_char c then c else CHR ''_'')"

fun collapse_underscores :: "string \<Rightarrow> string" where
  "collapse_underscores (c # d # cs) =
     (if c = CHR ''_'' \<and> d = CHR ''_'' then collapse_underscores (d # cs)
      else c # collapse_underscores (d # cs))"
| "collapse_underscores cs = cs"

text \<open>
  The specification's wording of \<open>normalize_path(raw, fallback)\<close>: lower-case,
  replace whitespace with underscores, strip any character outside \<open>[a-z0-9/._-]\<close>,
  collapse repeated underscores, trim leading and trailing separators; an empty result
  gives the fallback.
\<close>

definition normalize_path_spec :: "string \<Rightarrow> string \<Rightarrow> string" where
  "normalize_path_spec raw fallback =
     (let s = py_lower raw;
          s = map (\<lambda>c. if isspace c then CHR ''_'' else c) s;
          s = filter id_path_char s;
          s = collapse_underscores s;
          s = strip_chars separator_char s
      in if s = [] then fallback else s)"

text \<open>
  The same wording with one change: a character outside the class is replaced by an
  underscore instead of being removed.
\<close>

definition normalize_path_amended :: "string \<Rightarrow> string \<Rightarrow> string" where
  "normalize_path_amended raw fallback =
     (let s = py_lower raw;
          s = map (\<lambda>c. if isspace c then CHR ''_'' else c) s;
          s = map (\<lambda>c. if id_path_char c then c else CHR ''_'') s;
          s = collapse_underscores s;
          s = strip_chars separator_char s
      in if s = [] then fallback else s)"

section \<open>Values, errors and dictionaries\<close>

text \<open>
  The values a property bag, an action record or a data file holds: \<open>None\<close>, booleans,
  integers, floats (as reals), strings, lists, and dictionaries with string keys in
  insertion order.
\<close>

datatype json =
    JNull
  | JBool bool
  | JInt int
  | JFloat real
  | JStr string
  | JList "json list"
  | JObj "(string \<times> json) list"

text \<open>
  The exceptions the modelled code raises. \<open>Raised\<close> is an exception of a user's
  handler. \<open>Unmodelled\<close> marks a value of a type the source's signatures exclude:
  what Python does with it is outside the model.
\<close>

datatype error =
    KeyError string
  | ValueError string
  | AttributeError string
  | TypeError string
  | FileNotFoundError string
  | Unmodelled string
  | Raised string

text \<open>
  \<open>a or b\<close> on optional strings: \<open>None\<close> and the empty string are falsy.
\<close>

definition truthy :: "string option \<Rightarrow> bool" where
  "truthy v \<longleftrightarrow> (case v of None \<Rightarrow> False | Some s \<Rightarrow> s \<noteq> [])"

definition py_or :: "string option \<Rightarrow> string option \<Rightarrow> string option" where
  "py_or a b = (if truthy a then a else b)"

definition opt_str :: "string option \<Rightarrow> json" where
  "opt_str v = (case v of None \<Rightarrow> JNull | Some s \<Rightarrow> JStr s)"

section \<open>Element model (elements.py)\<close>

text \<open>
  The element classes. \<open>Plain kind event_names\<close> is a direct subclass of \<open>BaseElement\<close>
  that sets the class attributes \<open>KIND\<close> and \<open>EVENT_NAMES\<close>; where such a class is
  called (\<open>new_element\<close> below) it is taken to keep the base constructor. The others are
  classes of the Fabric generator with constructors of their own.
\<close>

datatype element_type =
    Plain string "string list"
  | FabricItem
  | FabricBlock
  | FabricRecipe
  | FabricTag
  | FabricEntity
  | FabricWorldgen

fun KIND :: "element_type \<Rightarrow> string" where
  "KIND (Plain kind event_names) = kind"
| "KIND FabricItem = ''item''"
| "KIND FabricBlock = ''block''"
| "KIND FabricRecipe = ''recipe''"
| "KIND FabricTag = ''tag''"
| "KIND FabricEntity = ''entity''"
| "KIND FabricWorldgen = ''worldgen''"

fun EVENT_NAMES :: "element_type \<Rightarrow> string list" where
  "EVENT_NAMES (Plain kind event_names) = event_names"
| "EVENT_NAMES FabricItem = [''Drop'', ''Use'']"
| "EVENT_NAMES FabricBlock = [''Break'', ''Place'']"
| "EVENT_NAMES FabricRecipe = []"
| "EVENT_NAMES FabricTag = []"
| "EVENT_NAMES FabricEntity = [''Spawn'', ''Death'']"
| "EVENT_NAMES FabricWorldgen = []"

text \<open>
  An element object: its class and the instance attributes \<open>name\<close>, \<open>properties\<close> and
  \<open>events\<close>. \<open>events\<close> is a \<open>defaultdict(list)\<close>: a dictionary from event name to the
  list of captured action lists, in insertion order.
\<close>

record element =
  cls :: element_type
  name :: string
  properties :: "(string \<times> json) list"
  events :: "(string \<times> json list list) list"

text \<open>
  \<open>BaseElement.__init__(self, mod, *, name=None, **properties)\<close>:
  \<open>self.name = name or self.KIND\<close>, an empty event table.
\<close>

definition BaseElement_init ::
    "element_type \<Rightarrow> string option \<Rightarrow> (string \<times> json) list \<Rightarrow> element" where
  "BaseElement_init c nm props =
     \<lparr>cls = c,
      name = (if truthy nm then the nm else KIND c),
      properties = props, events = []\<rparr>"

text \<open>
  \<open>self._element.events[name].append(actions)\<close> on the \<open>defaultdict\<close>: a missing key is
  created at the end with an empty list first.
\<close>

definition events_append ::
    "string \<Rightarrow> json list \<Rightarrow> (string \<times> json list list) list \<Rightarrow> (string \<times> json list list) list" where
  "events_append ev actions evs =
     (case map_of evs ev of
        None \<Rightarrow> evs @ [(ev, [actions])]
      | Some ls \<Rightarrow> AList.update ev (ls @ [actions]) evs)"

text \<open>\<open>BaseElement.to_dict\<close>.\<close>

definition to_dict :: "element \<Rightarrow> json" where
  "to_dict e =
     JObj [(''kind'', JStr (KIND (cls e))),
           (''name'', JStr (name e)),
           (''properties'', JObj (properties e)),
           (''events'', JObj (map (\<lambda>(ev, ls). (ev, JList (map JList ls))) (events e)))]"

section \<open>Generator registry (generators/base.py, generators/registry.py)\<close>

text \<open>\<open>GeneratorBase\<close>: the registry key and the dictionary of element classes.\<close>

record GeneratorBase =
  key :: string
  element_types :: "(string \<times> element_type) list"

text \<open>The module-level dictionary \<open>_GENERATORS\<close>, passed explicitly.\<close>

type_synonym registry = "(string \<times> GeneratorBase) list"

text \<open>
  \<open>register_generator(generator, *, replace=False)\<close>:
  \<^verbatim>\<open>
  key = generator.key
  if not key:
      raise ValueError("Generator key must be a non-empty string")
  if key in _GENERATORS and not replace:
      raise KeyError(f"Generator '{key}' is already registered")
  _GENERATORS[key] = generator
  \<close>
  The result is the exception raised, if any, and the dictionary as the call leaves it.
\<close>

definition register_generator :: "GeneratorBase \<Rightarrow> bool \<Rightarrow> registry \<Rightarrow> error option \<times> registry" where
  "register_generator g replace reg =
     (if key g = [] then (Some (ValueError ''Generator key must be a non-empty string''), reg)
      else if key g \<in> fst ` set reg \<and> \<not> replace
        then (Some (KeyError (''Generator '' @ [CHR 0x27] @ key g @ [CHR 0x27] @ '' is already registered'')),
              reg)
      else (None, AList.update (key g) g reg))"

definition get_generator :: "registry \<Rightarrow> string \<Rightarrow> error + GeneratorBase" where
  "get_generator reg k = (case map_of reg k of None \<Rightarrow> Inl (KeyError k) | Some g \<Rightarrow> Inr g)"

definition list_generators :: "registry \<Rightarrow> string list" where
  "list_generators reg = sort (map fst reg)"

text \<open>
  The dictionary after a run of the program: \<open>_GENERATORS\<close> starts empty and changes
  only through the calls of \<open>register_generator\<close>, here given in order with their
  \<open>replace\<close> arguments (a call that raises leaves the dictionary as it is).
\<close>

definition registered :: "(GeneratorBase \<times> bool) list \<Rightarrow> registry" where
  "registered calls = foldl (\<lambda>reg (g, replace). snd (register_generator g replace reg)) [] calls"

section \<open>The Mod aggregate (mod.py)\<close>

text \<open>
  A \<open>Mod\<close> object. \<open>elements\<close> holds references to element objects (addresses in the
  heap below), in the order of the \<open>add\<close> calls; \<open>bound_generator\<close> is the attribute
  \<open>_generator\<close>, the instance found in the registry at construction. The top of
  \<open>action_capture_stack\<close> is the last entry, as \<open>append\<close>, \<open>pop\<close> and \<open>[-1]\<close> use it.
\<close>

record Mod =
  author :: string
  mod_id :: string
  mod_name :: string
  version :: string
  generator :: string
  elements :: "nat list"
  startup_actions :: "json list"
  action_capture_stack :: "json list list"
  bound_generator :: GeneratorBase

text \<open>
  \<open>Mod.__init__\<close>: the attributes are set, then \<open>get_generator(generator)\<close> is called; its
  \<open>KeyError\<close> leaves no object behind.
\<close>

definition Mod_init ::
    "registry \<Rightarrow> string \<Rightarrow> string \<Rightarrow> string \<Rightarrow> string \<Rightarrow> string \<Rightarrow> error + Mod" where
  "Mod_init reg author' generator' mod_id' name' version' =
     (case get_generator reg generator' of
        Inl e \<Rightarrow> Inl e
      | Inr g \<Rightarrow>
          Inr \<lparr>author = author', mod_id = mod_id', mod_name = name', version = version',
               generator = generator', elements = [], startup_actions = [],
               action_capture_stack = [], bound_generator = g\<rparr>)"

text \<open>\<open>Mod.sendConsole\<close>: the action goes to the innermost capture context, or to the
  startup actions when no context is active.\<close>

definition console_action :: "string \<Rightarrow> json" where
  "console_action command = JObj [(''type'', JStr ''console''), (''command'', JStr command)]"

definition sendConsole :: "string \<Rightarrow> Mod \<Rightarrow> Mod" where
  "sendConsole command m =
     (let action = console_action command in
      if action_capture_stack m \<noteq> []
      then m\<lparr>action_capture_stack :=
               butlast (action_capture_stack m) @ [last (action_capture_stack m) @ [action]]\<rparr>
      else m\<lparr>startup_actions := startup_actions m @ [action]\<rparr>)"

text \<open>\<open>Mod.add\<close>: the element reference is appended.\<close>

definition Mod_add :: "nat \<Rightarrow> Mod \<Rightarrow> Mod" where
  "Mod_add r m = m\<lparr>elements := elements m @ [r]\<rparr>"

section \<open>Objects, handlers and action capture\<close>

text \<open>
  The program state: one \<open>Mod\<close> object and the element objects built through its
  factories, by address. Every element's \<open>mod\<close> attribute is that \<open>Mod\<close>.
\<close>

record world =
  the_mod :: Mod
  heap :: "nat \<Rightarrow> element"

text \<open>
  A handler is a zero-argument procedure of the user's. Its body is a sequence of the
  calls the declaration API offers: \<open>mod.sendConsole(command)\<close>, registering a handler
  on an element with \<open>@element.Event.<name>\<close> (which captures again, nested), and
  raising an exception.
\<close>

datatype handler =
    Pass
  | SendConsole string
  | Raise string
  | Seq handler handler
  | Register nat string handler

text \<open>
  \<open>exec\<close> runs a handler body; \<open>run_action_capture\<close> is \<open>Mod._run_action_capture\<close>:
  \<^verbatim>\<open>
  actions = []
  self._action_capture_stack.append(actions)
  try:
      func()
  finally:
      self._action_capture_stack.pop()
  return actions
  \<close>
  The list \<open>actions\<close> is the object pushed on the stack; when \<open>func\<close> returns it is the
  top entry again (lemma \<open>exec_stack\<close> below), so its contents are read there.
  \<open>Event_decorator\<close> is \<open>_ElementEventNamespace.__getattr__(name)\<close> applied to a handler.
\<close>

fun exec :: "handler \<Rightarrow> world \<Rightarrow> error option \<times> world"
and run_action_capture :: "handler \<Rightarrow> world \<Rightarrow> (error + json list) \<times> world"
and Event_decorator :: "nat \<Rightarrow> string \<Rightarrow> handler \<Rightarrow> world \<Rightarrow> error option \<times> world"
where
  "exec Pass w = (None, w)"
| "exec (SendConsole command) w = (None, w\<lparr>the_mod := sendConsole command (the_mod w)\<rparr>)"
| "exec (Raise msg) w = (Some (Raised msg), w)"
| "exec (Seq a b) w =
     (case exec a w of
        (Some e, w') \<Rightarrow> (Some e, w')
      | (None, w') \<Rightarrow> exec b w')"
| "exec (Register r ev func) w = Event_decorator r ev func w"
| "run_action_capture func w =
     (let m = the_mod w;
          w1 = w\<lparr>the_mod := m\<lparr>action_capture_stack := action_capture_stack m @ [[]]\<rparr>\<rparr>;
          (res, w2) = exec func w1;
          m2 = the_mod w2;
          actions = last (action_capture_stack m2);
          w3 = w2\<lparr>the_mod := m2\<lparr>action_capture_stack := butlast (action_capture_stack m2)\<rparr>\<rparr>
      in case res of
           Some e \<Rightarrow> (Inl e, w3)
         | None \<Rightarrow> (Inr actions, w3))"
| "Event_decorator r ev func w =
     (if ev \<notin> set (EVENT_NAMES (cls (heap w r)))
      then (Some (AttributeError ev), w)
      else case run_action_capture func w of
             (Inl e, w') \<Rightarrow> (Some e, w')
           | (Inr actions, w') \<Rightarrow>
               (None, w'\<lparr>heap := (heap w')
                   (r := (heap w' r)\<lparr>events := events_append ev actions (events (heap w' r))\<rparr>)\<rparr>))"

text \<open>\<open>Mod.to_manifest\<close>.\<close>

definition to_manifest :: "world \<Rightarrow> json" where
  "to_manifest w =
     (let m = the_mod w in
      JObj [(''author'', JStr (author m)),
            (''generator'', JStr (generator m)),
            (''mod_id'', JStr (mod_id m)),
            (''name'', JStr (mod_name m)),
            (''version'', JStr (version m)),
            (''startup_actions'', JList (startup_actions m)),
            (''elements'', JList (map (\<lambda>r. to_dict (heap w r)) (elements m)))])"

section \<open>The Fabric generator's helpers (generators/fabric_1_21_11.py)\<close>

text \<open>
  \<open>_split_namespaced_id\<close>: \<open>value.split(":", 1)\<close> cuts at the first colon.
\<close>

definition split_namespaced_id :: "string \<Rightarrow> string \<Rightarrow> string \<times> string" where
  "split_namespaced_id v default_namespace =
     (if CHR '':'' \<in> set v
      then (normalize_id_path (Some (takeWhile (\<lambda>c. c \<noteq> CHR '':'') v)) default_namespace,
            normalize_id_path (Some (tl (dropWhile (\<lambda>c. c \<noteq> CHR '':'') v))) ''generated'')
      else (default_namespace, normalize_id_path (Some v) ''generated''))"

text \<open>
  \<open>_display_name\<close>: \<open>re.split(r"[_/.-]+", identifier)\<close>, the empty words dropped, every
  word capitalized, joined by spaces. Splitting at every separator character and
  dropping the empty words gives the same words as splitting at runs. The function is
  applied to normalized identifiers, whose letters are \<open>a\<close>-\<open>z\<close>; \<open>upper_char\<close> is
  \<open>str.upper\<close> on ASCII.
\<close>

fun split_at :: "(char \<Rightarrow> bool) \<Rightarrow> string \<Rightarrow> string list" where
  "split_at P [] = [[]]"
| "split_at P (c # cs) =
     (if P c then [] # split_at P cs
      else (case split_at P cs of [] \<Rightarrow> [[c]] | w # ws \<Rightarrow> (c # w) # ws))"

definition upper_char :: "char \<Rightarrow> char" where
  "upper_char c =
     (let n = (of_char c :: nat) in if 97 \<le> n \<and> n \<le> 122 then char_of (n - 32) else c)"

definition capitalize :: "string \<Rightarrow> string" where
  "capitalize w = (case w of [] \<Rightarrow> [] | c # cs \<Rightarrow> upper_char c # py_lower cs)"

fun join :: "string \<Rightarrow> string list \<Rightarrow> string" where
  "join sep [] = []"
| "join sep [w] = w"
| "join sep (w # ws) = w @ sep @ join sep ws"

definition display_name :: "string \<Rightarrow> string" where
  "display_name identifier =
     (let ws = filter (\<lambda>w. w \<noteq> []) (split_at separator_char identifier);
          r = join '' '' (map capitalize ws)
      in if r = [] then ''Generated'' else r)"

text \<open>
  \<open>_is_literal_identifier\<close>: \<open>re.fullmatch(r"[a-z0-9_.-]+:[a-z0-9/._-]+", value)\<close>. The
  colon is in neither class, so the first class matches exactly the characters before
  the first character outside it, which must be the colon.
\<close>

definition namespace_char :: "char \<Rightarrow> bool" where
  "namespace_char c \<longleftrightarrow>
     (CHR ''a'' \<le> c \<and> c \<le> CHR ''z'') \<or> (CHR ''0'' \<le> c \<and> c \<le> CHR ''9'') \<or>
     c = CHR ''_'' \<or> c = CHR ''.'' \<or> c = CHR ''-''"

definition is_literal_identifier :: "string \<Rightarrow> bool" where
  "is_literal_identifier v \<longleftrightarrow>
     takeWhile namespace_char v \<noteq> [] \<and>
     (case dropWhile namespace_char v of
        [] \<Rightarrow> False
      | c # path \<Rightarrow> c = CHR '':'' \<and> path \<noteq> [] \<and> list_all id_path_char path)"

text \<open>
  The language of the regular expression, written out: a non-empty namespace over
  \<open>[a-z0-9_.-]\<close>, a colon, a non-empty path over \<open>[a-z0-9/._-]\<close>.
\<close>

definition strict_namespace_path :: "string \<Rightarrow> bool" where
  "strict_namespace_path v \<longleftrightarrow>
     (\<exists>ns path. v = ns @ CHR '':'' # path \<and> ns \<noteq> [] \<and> list_all namespace_char ns \<and>
                path \<noteq> [] \<and> list_all id_path_char path)"

text \<open>\<open>_resolve_item_like_id\<close>.\<close>

definition resolve_item_like_id :: "string \<Rightarrow> string \<Rightarrow> string set \<Rightarrow> string set \<Rightarrow> string" where
  "resolve_item_like_id v mod_id' generated_items generated_blocks =
     (if is_literal_identifier v then v
      else let normalized = normalize_id_path (Some v) ''generated'' in
        if normalized \<in> generated_items \<or> normalized \<in> generated_blocks
        then mod_id' @ '':'' @ normalized
        else ''minecraft:'' @ normalized)"

text \<open>\<open>_parse_color\<close>, for an \<open>int\<close> or a \<open>str\<close> argument.\<close>

datatype color_arg = ColorInt int | ColorStr string

definition hex_char :: "char \<Rightarrow> bool" where
  "hex_char c \<longleftrightarrow> (CHR ''0'' \<le> c \<and> c \<le> CHR ''9'') \<or> (CHR ''a'' \<le> c \<and> c \<le> CHR ''f'')"

definition hex_digit :: "char \<Rightarrow> int" where
  "hex_digit c =
     (let n = (of_char c :: nat) in if 97 \<le> n then int n - 87 else int n - 48)"

definition int16 :: "string \<Rightarrow> int" where
  "int16 s = foldl (\<lambda>acc c. 16 * acc + hex_digit c) 0 s"

definition remove_prefix :: "string \<Rightarrow> string \<Rightarrow> string" where
  "remove_prefix p s = (if take (length p) s = p then drop (length p) s else s)"

definition parse_color :: "color_arg option \<Rightarrow> error + int option" where
  "parse_color v =
     (case v of
        None \<Rightarrow> Inr None
      | Some (ColorInt n) \<Rightarrow> Inr (Some (max 0 (min n 16777215)))
      | Some (ColorStr s) \<Rightarrow>
          (let text = remove_prefix ''0x'' (remove_prefix ''#'' (py_lower (py_strip s))) in
           if 1 \<le> length text \<and> length text \<le> 6 \<and> list_all hex_char text
           then Inr (Some (int16 text))
           else Inl (ValueError ''Invalid RGB color value'')))"

definition RARITIES :: "(string \<times> string) list" where
  "RARITIES = [(''common'', ''COMMON''), (''uncommon'', ''UNCOMMON''), (''rare'', ''RARE''),
               (''epic'', ''EPIC'')]"

definition RECIPE_TYPES :: "string set" where
  "RECIPE_TYPES = {''shaped'', ''shapeless'', ''smelting'', ''blasting'', ''smoking'',
                   ''campfire_cooking''}"

definition SPAWN_GROUPS :: "(string \<times> string) list" where
  "SPAWN_GROUPS =
     [(''monster'', ''MONSTER''), (''creature'', ''CREATURE''), (''ambient'', ''AMBIENT''),
      (''water_creature'', ''WATER_CREATURE''), (''water_ambient'', ''WATER_AMBIENT''),
      (''underground_water_creature'', ''UNDERGROUND_WATER_CREATURE''),
      (''axolotls'', ''AXOLOTLS''), (''misc'', ''MISC'')]"

definition spawn_group_constant :: "string \<Rightarrow> string" where
  "spawn_group_constant v =
     (case map_of SPAWN_GROUPS (py_strip (py_lower v)) of None \<Rightarrow> ''CREATURE'' | Some g \<Rightarrow> g)"

definition WORLDGEN_FEATURE_ALIASES :: "(string \<times> string) list" where
  "WORLDGEN_FEATURE_ALIASES = [(''minecraft:ore_diamond'', ''minecraft:ore_diamond_small'')]"

text \<open>The value a constructor stores for \<open>creative_tab\<close>:
  \<open>_normalize_id_path(creative_tab, "") if creative_tab else None\<close>.\<close>

definition creative_tab_prop :: "string option \<Rightarrow> json" where
  "creative_tab_prop t = (if truthy t then JStr (normalize_id_path t []) else JNull)"

section \<open>Element classes of the Fabric generator\<close>

text \<open>
  The constructors take their keyword arguments in the order of the source's
  signatures. Error messages are abbreviated. An argument annotated
  \<open>int\<close> or \<open>float\<close> is an \<open>int\<close> or a \<open>real\<close>, so \<open>int(x)\<close> and \<open>float(x)\<close> are the
  identity.
\<close>

text \<open>\<open>FabricItem.__init__(mod, identifier, name, texture, model, creative_tab,
  max_count, durability, fireproof, rarity)\<close>.\<close>

definition FabricItem_init ::
    "string option \<Rightarrow> string option \<Rightarrow> string option \<Rightarrow> string option \<Rightarrow> string option \<Rightarrow>
     int \<Rightarrow> int option \<Rightarrow> bool \<Rightarrow> string \<Rightarrow> error + element" where
  "FabricItem_init identifier nm texture model creative_tab max_count durability fireproof rarity =
     (let item_id = normalize_id_path (py_or identifier nm) ''item'';
          display = (if truthy nm then the nm else display_name item_id);
          rarity_name = (case map_of RARITIES (py_lower rarity) of
                           None \<Rightarrow> ''COMMON'' | Some r \<Rightarrow> r)
      in Inr (BaseElement_init FabricItem (Some item_id)
           [(''identifier'', JStr item_id),
            (''display_name'', JStr display),
            (''texture'', opt_str texture),
            (''model'', opt_str model),
            (''creative_tab'', creative_tab_prop creative_tab),
            (''max_count'', JInt (max 1 max_count)),
            (''durability'', (case durability of None \<Rightarrow> JNull | Some d \<Rightarrow> JInt (max 1 d))),
            (''fireproof'', JBool fireproof),
            (''rarity'', JStr rarity_name)]))"

text \<open>\<open>FabricBlock.__init__(mod, identifier, name, texture, model, hardness, resistance,
  luminance, requires_tool, creative_tab)\<close>.\<close>

definition FabricBlock_init ::
    "string option \<Rightarrow> string option \<Rightarrow> string option \<Rightarrow> string option \<Rightarrow> real \<Rightarrow>
     real option \<Rightarrow> int \<Rightarrow> bool \<Rightarrow> string option \<Rightarrow> error + element" where
  "FabricBlock_init identifier nm texture model hardness resistance luminance requires_tool
       creative_tab =
     (let block_id = normalize_id_path (py_or identifier nm) ''block'';
          display = (if truthy nm then the nm else display_name block_id);
          resistance_value = (case resistance of None \<Rightarrow> hardness | Some r \<Rightarrow> r)
      in Inr (BaseElement_init FabricBlock (Some block_id)
           [(''identifier'', JStr block_id),
            (''display_name'', JStr display),
            (''texture'', opt_str texture),
            (''model'', opt_str model),
            (''hardness'', JFloat hardness),
            (''resistance'', JFloat resistance_value),
            (''luminance'', JInt (max 0 luminance)),
            (''requires_tool'', JBool requires_tool),
            (''creative_tab'', creative_tab_prop creative_tab)]))"

text \<open>\<open>FabricRecipe.__init__(mod, recipe_type, output, identifier, count, pattern, key,
  ingredients, input_item, experience, cooking_time)\<close>.\<close>

definition FabricRecipe_init ::
    "string \<Rightarrow> string \<Rightarrow> string option \<Rightarrow> int \<Rightarrow> string list option \<Rightarrow>
     (string \<times> string) list option \<Rightarrow> string list option \<Rightarrow> string option \<Rightarrow> real \<Rightarrow> int \<Rightarrow>
     error + element" where
  "FabricRecipe_init recipe_type output identifier count pattern key' ingredients input_item
       experience cooking_time =
     (let kind = py_strip (py_lower recipe_type) in
      if kind \<notin> RECIPE_TYPES then Inl (ValueError ''Unsupported recipe_type'')
      else if kind = ''shaped'' \<and>
              (pattern = None \<or> pattern = Some [] \<or> key' = None \<or> key' = Some [])
        then Inl (ValueError ''Shaped recipes require pattern and key.'')
      else if kind = ''shapeless'' \<and> (ingredients = None \<or> ingredients = Some [])
        then Inl (ValueError ''Shapeless recipes require ingredients.'')
      else if kind \<in> {''smelting'', ''blasting'', ''smoking'', ''campfire_cooking''} \<and>
              \<not> truthy input_item
        then Inl (ValueError (kind @ '' recipes require input_item.''))
      else
        let recipe_id = normalize_id_path (py_or identifier (Some (kind @ ''_'' @ output)))
                          (kind @ ''_recipe'')
        in Inr (BaseElement_init FabricRecipe (Some recipe_id)
             [(''identifier'', JStr recipe_id),
              (''recipe_type'', JStr kind),
              (''output'', JStr output),
              (''count'', JInt (max 1 count)),
              (''pattern'', JList (map JStr (case pattern of None \<Rightarrow> [] | Some p \<Rightarrow> p))),
              (''key'', JObj (map (\<lambda>(s, i). (s, JStr i)) (case key' of None \<Rightarrow> [] | Some k \<Rightarrow> k))),
              (''ingredients'',
                 JList (map JStr (case ingredients of None \<Rightarrow> [] | Some i \<Rightarrow> i))),
              (''input_item'', opt_str input_item),
              (''experience'', JFloat experience),
              (''cooking_time'', JInt (max 1 cooking_time))]))"

text \<open>\<open>FabricTag.__init__(mod, registry, identifier, values, replace)\<close>; \<open>mod.mod_id\<close> is
  the default namespace.\<close>

definition FabricTag_init ::
    "Mod \<Rightarrow> string \<Rightarrow> string \<Rightarrow> string list \<Rightarrow> bool \<Rightarrow> error + element" where
  "FabricTag_init m registry' identifier values' replace =
     (let reg = py_strip (py_lower registry') in
      if reg \<notin> {''item'', ''block''}
      then Inl (ValueError ''Tag registry must be item or block.'')
      else
        let (ns, path) = split_namespaced_id identifier (mod_id m);
            nm = normalize_id_path (Some (ns @ ''_'' @ path)) ''tag''
        in Inr (BaseElement_init FabricTag (Some nm)
             [(''registry'', JStr reg),
              (''namespace'', JStr ns),
              (''identifier'', JStr path),
              (''values'', JList (map JStr values')),
              (''replace'', JBool replace)]))"

text \<open>\<open>FabricEntity.__init__(mod, identifier, name, spawn_group, width, height,
  max_health, movement_speed, attack_damage, creative_tab, spawn_egg_primary,
  spawn_egg_secondary, tracking_range, tracked_update_rate,
  force_tracked_velocity_updates)\<close>.\<close>

definition FabricEntity_init ::
    "string option \<Rightarrow> string option \<Rightarrow> string \<Rightarrow> real \<Rightarrow> real \<Rightarrow> real \<Rightarrow> real \<Rightarrow> real \<Rightarrow>
     string option \<Rightarrow> color_arg option \<Rightarrow> color_arg option \<Rightarrow> int \<Rightarrow> int \<Rightarrow> bool \<Rightarrow>
     error + element" where
  "FabricEntity_init identifier nm spawn_group width height max_health movement_speed
       attack_damage creative_tab spawn_egg_primary spawn_egg_secondary tracking_range
       tracked_update_rate force_tracked_velocity_updates =
     (let entity_id = normalize_id_path (py_or identifier nm) ''entity'';
          display = (if truthy nm then the nm else display_name entity_id)
      in case parse_color spawn_egg_primary of
           Inl e \<Rightarrow> Inl e
         | Inr primary \<Rightarrow>
        (case parse_color spawn_egg_secondary of
           Inl e \<Rightarrow> Inl e
         | Inr secondary \<Rightarrow>
        (let secondary1 = (if primary \<noteq> None \<and> secondary = None then primary else secondary);
             primary1 = (if secondary1 \<noteq> None \<and> primary = None then secondary1 else primary);
             color = (\<lambda>c. case c of None \<Rightarrow> JNull | Some n \<Rightarrow> JInt n)
         in Inr (BaseElement_init FabricEntity (Some entity_id)
              [(''identifier'', JStr entity_id),
               (''display_name'', JStr display),
               (''spawn_group'', JStr (spawn_group_constant spawn_group)),
               (''width'', JFloat (max (1 / 10) width)),
               (''height'', JFloat (max (1 / 10) height)),
               (''max_health'', JFloat (max 1 max_health)),
               (''movement_speed'', JFloat (max (1 / 100) movement_speed)),
               (''attack_damage'', JFloat (max 0 attack_damage)),
               (''creative_tab'', creative_tab_prop creative_tab),
               (''spawn_egg_primary'', color primary1),
               (''spawn_egg_secondary'', color secondary1),
               (''tracking_range'', JInt (max 1 tracking_range)),
               (''tracked_update_rate'', JInt (max 1 tracked_update_rate)),
               (''force_tracked_velocity_updates'', JBool force_tracked_velocity_updates)]))))"

text \<open>\<open>FabricWorldgen.__init__(mod, worldgen_type, identifier, namespace, payload,
  payload_file)\<close>. \<open>_deep_json_copy\<close> is \<open>json.loads(json.dumps(payload))\<close>, the identity
  on the values of type \<open>json\<close>.\<close>

definition FabricWorldgen_init ::
    "Mod \<Rightarrow> string \<Rightarrow> string \<Rightarrow> string option \<Rightarrow> (string \<times> json) list option \<Rightarrow>
     string option \<Rightarrow> error + element" where
  "FabricWorldgen_init m worldgen_type identifier namespace payload payload_file =
     (if payload \<noteq> None \<and> payload_file \<noteq> None
      then Inl (ValueError ''Provide at most one of payload or payload_file for Worldgen.'')
      else
        let wg_type = normalize_id_path (Some worldgen_type) ''placed_feature'';
            wg_id = normalize_id_path (Some identifier) ''worldgen'';
            wg_namespace = (if truthy namespace then normalize_id_path namespace (mod_id m)
                            else mod_id m)
        in Inr (BaseElement_init FabricWorldgen
                  (Some (normalize_id_path (Some (wg_type @ ''_'' @ wg_id)) ''worldgen''))
             [(''worldgen_type'', JStr wg_type),
              (''identifier'', JStr wg_id),
              (''namespace'', JStr wg_namespace),
              (''payload'', (case payload of None \<Rightarrow> JNull | Some p \<Rightarrow> JObj p)),
              (''payload_file'', opt_str payload_file)]))"

section \<open>Element factories of a Mod\<close>

text \<open>The keyword arguments of one constructor call, by class.\<close>

datatype element_args =
    PlainArgs "string option" "(string \<times> json) list"
  | ItemArgs "string option" "string option" "string option" "string option" "string option"
      int "int option" bool string
  | BlockArgs "string option" "string option" "string option" "string option" real
      "real option" int bool "string option"
  | RecipeArgs string string "string option" int "string list option"
      "(string \<times> string) list option" "string list option" "string option" real int
  | TagArgs string string "string list" bool
  | EntityArgs "string option" "string option" string real real real real real
      "string option" "color_arg option" "color_arg option" int int bool
  | WorldgenArgs string string "string option" "(string \<times> json) list option" "string option"

text \<open>\<open>element_type(mod, *args, **kwargs)\<close>: the class is called with the Mod as owner.
  Keyword arguments of another class are a \<open>TypeError\<close>.\<close>

definition new_element :: "element_type \<Rightarrow> Mod \<Rightarrow> element_args \<Rightarrow> error + element" where
  "new_element t m a =
     (let mismatch = Inl (TypeError ''unexpected keyword argument'') in
      case a of
        PlainArgs nm props \<Rightarrow>
          (case t of Plain kind evs \<Rightarrow> Inr (BaseElement_init t nm props) | _ \<Rightarrow> mismatch)
      | ItemArgs i n tx mo c mc d f r \<Rightarrow>
          (if t = FabricItem then FabricItem_init i n tx mo c mc d f r else mismatch)
      | BlockArgs i n tx mo h r l rt c \<Rightarrow>
          (if t = FabricBlock then FabricBlock_init i n tx mo h r l rt c else mismatch)
      | RecipeArgs rt out i c p k ing inp ex ct \<Rightarrow>
          (if t = FabricRecipe then FabricRecipe_init rt out i c p k ing inp ex ct else mismatch)
      | TagArgs reg i vs r \<Rightarrow>
          (if t = FabricTag then FabricTag_init m reg i vs r else mismatch)
      | EntityArgs i n sg w h mh ms ad c p s tr tu f \<Rightarrow>
          (if t = FabricEntity then FabricEntity_init i n sg w h mh ms ad c p s tr tu f
           else mismatch)
      | WorldgenArgs wt i ns p pf \<Rightarrow>
          (if t = FabricWorldgen then FabricWorldgen_init m wt i ns p pf else mismatch))"

text \<open>
  The method \<open>Mod.__getattr__(self, name)\<close>:
  \<^verbatim>\<open>
  element_type = self._generator.element_types.get(name)
  if element_type is None:
      raise AttributeError(name)
  def factory(*args, **kwargs):
      return element_type(self, *args, **kwargs)
  return factory
  \<close>
  Python calls it for \<open>mod.<name>\<close> only when the lookup of the name in the object and
  in its class has found nothing: see \<open>Mod_getattribute\<close> below.
\<close>

definition Mod_getattr :: "Mod \<Rightarrow> string \<Rightarrow> error + (element_args \<Rightarrow> error + element)" where
  "Mod_getattr m nm =
     (case map_of (element_types (bound_generator m)) nm of
        None \<Rightarrow> Inl (AttributeError nm)
      | Some element_type' \<Rightarrow> Inr (\<lambda>args. new_element element_type' m args))"

text \<open>
  The value of the expression \<open>mod.<name>\<close>. The name is looked up in the attributes
  that \<open>Mod.__init__\<close> has set on the object, then among the methods of the class
  \<open>Mod\<close>; \<open>__getattr__\<close> is called only when both find nothing. Names that begin with
  two underscores (among them the attributes every Python object has, such as
  \<open>__class__\<close> and \<open>__dict__\<close>) are not modelled.
\<close>

datatype attribute =
    String_attribute string
  | Elements_attribute "nat list"
  | Actions_attribute "json list"
  | Stack_attribute "json list list"
  | Generator_attribute GeneratorBase
  | Method string
  | Factory "element_args \<Rightarrow> error + element"

definition instance_attributes :: "Mod \<Rightarrow> (string \<times> attribute) list" where
  "instance_attributes m =
     [(''author'', String_attribute (author m)),
      (''mod_id'', String_attribute (mod_id m)),
      (''name'', String_attribute (mod_name m)),
      (''version'', String_attribute (version m)),
      (''generator'', String_attribute (generator m)),
      (''elements'', Elements_attribute (elements m)),
      (''startup_actions'', Actions_attribute (startup_actions m)),
      (''_action_capture_stack'', Stack_attribute (action_capture_stack m)),
      (''_generator'', Generator_attribute (bound_generator m))]"

definition Mod_methods :: "string list" where
  "Mod_methods = [''_run_action_capture'', ''sendConsole'', ''add'', ''to_manifest'', ''compile'']"

definition special_name :: "string \<Rightarrow> bool" where
  "special_name nm \<longleftrightarrow> take 2 nm = ''__''"

definition Mod_getattribute :: "Mod \<Rightarrow> string \<Rightarrow> error + attribute" where
  "Mod_getattribute m nm =
     (case map_of (instance_attributes m) nm of
        Some a \<Rightarrow> Inr a
      | None \<Rightarrow>
          if nm \<in> set Mod_methods then Inr (Method nm)
          else if special_name nm then Inl (Unmodelled nm)
          else (case Mod_getattr m nm of
                  Inl e \<Rightarrow> Inl e
                | Inr factory \<Rightarrow> Inr (Factory factory)))"

text \<open>The names that the lookup finds on every Mod object, before \<open>__getattr__\<close>.\<close>

definition own_attribute :: "string \<Rightarrow> bool" where
  "own_attribute nm \<longleftrightarrow>
     nm \<in> set [''author'', ''mod_id'', ''name'', ''version'', ''generator'', ''elements'',
               ''startup_actions'', ''_action_capture_stack'', ''_generator''] \<or>
     nm \<in> set Mod_methods"

section \<open>Data files of the Fabric generator\<close>

text \<open>
  Reading a property bag. \<open>getitem\<close> is \<open>props[k]\<close> and \<open>dict_get\<close> is \<open>props.get(k)\<close>.
  The conversions \<open>str(x)\<close>, \<open>int(x)\<close>, \<open>float(x)\<close>, \<open>bool(x)\<close>, \<open>list(x)\<close> and
  \<open>dict(x)\<close> are the identity on a value of the type the constructor stored; on any
  other value they are \<open>Unmodelled\<close>.
\<close>

definition getitem :: "(string \<times> json) list \<Rightarrow> string \<Rightarrow> error + json" where
  "getitem d k = (case map_of d k of None \<Rightarrow> Inl (KeyError k) | Some v \<Rightarrow> Inr v)"

definition dict_get :: "(string \<times> json) list \<Rightarrow> string \<Rightarrow> json" where
  "dict_get d k = (case map_of d k of None \<Rightarrow> JNull | Some v \<Rightarrow> v)"

definition py_str :: "json \<Rightarrow> error + string" where
  "py_str v = (case v of JStr s \<Rightarrow> Inr s | _ \<Rightarrow> Inl (Unmodelled ''str''))"

definition py_int :: "json \<Rightarrow> error + int" where
  "py_int v = (case v of JInt n \<Rightarrow> Inr n | _ \<Rightarrow> Inl (Unmodelled ''int''))"

definition py_float :: "json \<Rightarrow> error + real" where
  "py_float v = (case v of JFloat x \<Rightarrow> Inr x | _ \<Rightarrow> Inl (Unmodelled ''float''))"

definition py_bool :: "json \<Rightarrow> error + bool" where
  "py_bool v = (case v of JBool b \<Rightarrow> Inr b | _ \<Rightarrow> Inl (Unmodelled ''bool''))"

definition py_list :: "json \<Rightarrow> error + json list" where
  "py_list v = (case v of JList xs \<Rightarrow> Inr xs | _ \<Rightarrow> Inl (Unmodelled ''list''))"

definition py_dict :: "json \<Rightarrow> error + (string \<times> json) list" where
  "py_dict v = (case v of JObj d \<Rightarrow> Inr d | _ \<Rightarrow> Inl (Unmodelled ''dict''))"

text \<open>Sequencing of steps that can raise: the first error stops the rest.\<close>

definition and_then :: "error + 'a \<Rightarrow> ('a \<Rightarrow> error + 'b) \<Rightarrow> error + 'b" where
  "and_then r f = (case r of Inl e \<Rightarrow> Inl e | Inr x \<Rightarrow> f x)"

fun for_each :: "('a \<Rightarrow> error + 'b) \<Rightarrow> 'a list \<Rightarrow> error + 'b list" where
  "for_each f [] = Inr []"
| "for_each f (x # xs) =
     and_then (f x) (\<lambda>y. and_then (for_each f xs) (\<lambda>ys. Inr (y # ys)))"

text \<open>
  One iteration of the loop of \<open>_write_recipes\<close>: the path (the parts joined by \<open>/\<close>)
  and the payload handed to \<open>_write_json\<close>.
\<close>

definition write_recipe ::
    "string list \<Rightarrow> string \<Rightarrow> string set \<Rightarrow> string set \<Rightarrow> (string \<times> json) list \<Rightarrow>
     error + (string list \<times> json)" where
  "write_recipe data_dir mod_id' generated_items generated_blocks props =
     and_then (getitem props ''recipe_type'') (\<lambda>recipe_type.
     and_then (and_then (getitem props ''output'') py_str) (\<lambda>out.
     let output = resolve_item_like_id out mod_id' generated_items generated_blocks in
     and_then (and_then (getitem props ''identifier'') py_str) (\<lambda>ident.
     let (namespace, path) = split_namespaced_id ident mod_id' in
     and_then
       (if recipe_type = JStr ''shaped'' then
          and_then (and_then (getitem props ''key'') py_dict) (\<lambda>key_items.
          and_then
            (for_each (\<lambda>(symbol, item_ref).
               and_then (py_str item_ref) (\<lambda>ref.
                 Inr (symbol, JObj [(''item'', JStr (resolve_item_like_id ref mod_id'
                                        generated_items generated_blocks))])))
               key_items) (\<lambda>key_payload.
          and_then (and_then (getitem props ''pattern'') py_list) (\<lambda>pattern.
          and_then (and_then (getitem props ''count'') py_int) (\<lambda>count.
          Inr (JObj [(''type'', JStr ''minecraft:crafting_shaped''),
                     (''pattern'', JList pattern),
                     (''key'', JObj key_payload),
                     (''result'', JObj [(''item'', JStr output), (''count'', JInt count)])])))))
        else if recipe_type = JStr ''shapeless'' then
          and_then (and_then (getitem props ''ingredients'') py_list) (\<lambda>ingredients.
          and_then
            (for_each (\<lambda>ingredient.
               and_then (py_str ingredient) (\<lambda>ref.
                 Inr (JObj [(''item'', JStr (resolve_item_like_id ref mod_id'
                               generated_items generated_blocks))])))
               ingredients) (\<lambda>items.
          and_then (and_then (getitem props ''count'') py_int) (\<lambda>count.
          Inr (JObj [(''type'', JStr ''minecraft:crafting_shapeless''),
                     (''ingredients'', JList items),
                     (''result'', JObj [(''item'', JStr output), (''count'', JInt count)])]))))
        else
          and_then (py_str recipe_type) (\<lambda>rt.
          and_then (and_then (getitem props ''input_item'') py_str) (\<lambda>input_item.
          and_then (and_then (getitem props ''experience'') py_float) (\<lambda>experience.
          and_then (and_then (getitem props ''cooking_time'') py_int) (\<lambda>cooking_time.
          Inr (JObj [(''type'', JStr (''minecraft:'' @ rt)),
                     (''ingredient'',
                        JObj [(''item'', JStr (resolve_item_like_id input_item mod_id'
                                 generated_items generated_blocks))]),
                     (''result'', JStr output),
                     (''experience'', JFloat experience),
                     (''cookingtime'', JInt cooking_time)]))))))
       (\<lambda>payload. Inr (data_dir @ [namespace, ''recipes'', path @ ''.json''], payload)))))"

text \<open>One iteration of the loop of \<open>_write_tags\<close>.\<close>

definition write_tag ::
    "string list \<Rightarrow> string \<Rightarrow> string set \<Rightarrow> string set \<Rightarrow> (string \<times> json) list \<Rightarrow>
     error + (string list \<times> json)" where
  "write_tag data_dir mod_id' generated_items generated_blocks props =
     and_then (and_then (getitem props ''values'') py_list) (\<lambda>vals.
     and_then
       (for_each (\<lambda>v.
          and_then (py_str v) (\<lambda>ref.
            Inr (JStr (resolve_item_like_id ref mod_id' generated_items generated_blocks))))
          vals) (\<lambda>values'.
     and_then (getitem props ''registry'') (\<lambda>registry'.
     let registry_folder = (if registry' = JStr ''item'' then ''items'' else ''blocks'') in
     and_then (and_then (getitem props ''replace'') py_bool) (\<lambda>replace.
     let payload = JObj [(''replace'', JBool replace), (''values'', JList values')] in
     and_then (and_then (getitem props ''namespace'') py_str) (\<lambda>namespace.
     and_then (and_then (getitem props ''identifier'') py_str) (\<lambda>ident.
     Inr (data_dir @ [namespace, ''tags'', registry_folder, ident @ ''.json''], payload)))))))"

text \<open>
  \<open>_resolve_json_payload\<close>. Reading a file and \<open>json.loads\<close> are parameters:
  \<open>read_text path\<close> is \<open>None\<close> when the path does not exist or is not a file, and
  \<open>json_loads text\<close> is \<open>None\<close> when the text is not JSON (\<open>JSONDecodeError\<close>, a
  \<open>ValueError\<close>). The property \<open>payload\<close> is \<open>None\<close> or a dictionary.
\<close>

definition resolve_json_payload ::
    "(string \<Rightarrow> string option) \<Rightarrow> (string \<Rightarrow> json option) \<Rightarrow> json \<Rightarrow> json \<Rightarrow>
     error + (string \<times> json) list" where
  "resolve_json_payload read_text json_loads payload payload_file =
     (case payload_file of
        JStr f \<Rightarrow>
          (if f \<noteq> [] then
             (case read_text f of
                None \<Rightarrow> Inl (FileNotFoundError f)
              | Some text \<Rightarrow>
                  (case json_loads text of
                     None \<Rightarrow> Inl (ValueError ''JSONDecodeError'')
                   | Some (JObj loaded) \<Rightarrow> Inr loaded
                   | Some _ \<Rightarrow> Inl (ValueError ''payload_file must decode to a JSON object.'')))
           else (case payload of JNull \<Rightarrow> Inr [] | JObj p \<Rightarrow> Inr p
                 | _ \<Rightarrow> Inl (Unmodelled ''payload'')))
      | JNull \<Rightarrow> (case payload of JNull \<Rightarrow> Inr [] | JObj p \<Rightarrow> Inr p
                  | _ \<Rightarrow> Inl (Unmodelled ''payload''))
      | _ \<Rightarrow> Inl (Unmodelled ''payload_file''))"

text \<open>
  The rewriting step of \<open>_write_worldgen_entries\<close> on the resolved payload:
  \<^verbatim>\<open>
  if str(props["worldgen_type"]) == "placed_feature":
      feature_id = payload.get("feature")
      if isinstance(feature_id, str):
          payload["feature"] = _WORLDGEN_FEATURE_ALIASES.get(feature_id, feature_id)
  \<close>
\<close>

definition feature_alias :: "string \<Rightarrow> string" where
  "feature_alias feature_id =
     (case map_of WORLDGEN_FEATURE_ALIASES feature_id of None \<Rightarrow> feature_id | Some a \<Rightarrow> a)"

definition rewrite_feature :: "string \<Rightarrow> (string \<times> json) list \<Rightarrow> (string \<times> json) list" where
  "rewrite_feature worldgen_type payload =
     (if worldgen_type = ''placed_feature'' then
        (case dict_get payload ''feature'' of
           JStr feature_id \<Rightarrow> AList.update ''feature'' (JStr (feature_alias feature_id)) payload
         | _ \<Rightarrow> payload)
      else payload)"

text \<open>One iteration of the loop of \<open>_write_worldgen_entries\<close>.\<close>

definition write_worldgen_entry ::
    "(string \<Rightarrow> string option) \<Rightarrow> (string \<Rightarrow> json option) \<Rightarrow> string list \<Rightarrow>
     (string \<times> json) list \<Rightarrow> error + (string list \<times> json)" where
  "write_worldgen_entry read_text json_loads data_dir props =
     and_then (resolve_json_payload read_text json_loads
                 (dict_get props ''payload'') (dict_get props ''payload_file'')) (\<lambda>payload.
     and_then (and_then (getitem props ''worldgen_type'') py_str) (\<lambda>worldgen_type.
     let payload' = rewrite_feature worldgen_type payload in
     and_then (and_then (getitem props ''namespace'') py_str) (\<lambda>namespace.
     and_then (and_then (getitem props ''identifier'') py_str) (\<lambda>ident.
     Inr (data_dir @ [namespace, ''worldgen'', worldgen_type, ident @ ''.json''],
          JObj payload')))))"

section \<open>What a handler does at its own level\<close>





section \<open>The file system and \<open>Fabric12111Generator.compile\<close>\<close>

text \<open>
  A file system is a tree: a node is a regular file with its content or a directory
  mapping a name to the node it holds. A path is the list of its components from the
  top of the tree; a component is a plain name (\<open>..\<close> and symbolic links are not
  modelled). The content of a file is the text handed to \<open>_write_text\<close> or the
  payload handed to \<open>_write_json\<close> (its rendering by \<open>json.dumps\<close> is a function of
  the payload); \<open>shutil.copy2\<close> gives the target the content of the source.
\<close>

datatype content = Text string | Json json

datatype node = File content | Dir "string \<Rightarrow> node option"

type_synonym path = "string list"


fun lookup :: "path \<Rightarrow> node \<Rightarrow> node option" where
  "lookup [] n = Some n"
| "lookup (x # p) (File c) = None"
| "lookup (x # p) (Dir f) = (case f x of None \<Rightarrow> None | Some n \<Rightarrow> lookup p n)"




text \<open>
  What is seen at a path: nothing (\<open>None\<close>), a directory (\<open>Some None\<close>) or a regular
  file with its content. \<open>inside root p\<close>: the path \<open>p\<close> is \<open>root\<close> or lies below it.
\<close>

definition entry :: "path \<Rightarrow> node \<Rightarrow> content option option" where
  "entry p fs = map_option (\<lambda>n. case n of File c \<Rightarrow> Some c | Dir f \<Rightarrow> None) (lookup p fs)"
















section \<open>Objects of the test suite\<close>

text \<open>
  From \<open>tests/test_custom.py\<close>: the element class \<open>Spell\<close>, the generator
  \<open>NoItemGenerator\<close>, the Mod built on it, and the spell \<open>fireball\<close>. \<open>Spell\<close> stands
  for the class attributes \<open>KIND\<close> and \<open>EVENT_NAMES\<close> of the class; its constructor
  \<open>Spell.__init__(mod, *, mana_cost=1, name=None)\<close>, which calls
  \<open>super().__init__(mod, name=name, mana_cost=mana_cost)\<close>, is \<open>Spell_init\<close> (it is not
  what \<open>new_element\<close> gives a \<open>Plain\<close> class), and \<open>fireball\<close> is
  \<open>mod.Spell(name="fireball", mana_cost=10)\<close>.
\<close>

definition Spell :: element_type where
  "Spell = Plain ''spell'' [''Cast'']"


definition NoItemGenerator :: GeneratorBase where
  "NoItemGenerator = \<lparr>key = ''demo-no-item-1.0'', element_types = [(''Spell'', Spell)]\<rparr>"




text \<open>
  The scenario of the specification: a generator \<open>G1\<close> that offers the category
  \<open>Widget\<close>, a direct subclass of \<open>BaseElement\<close> with the event \<open>Cast\<close>.
\<close>

definition G1 :: GeneratorBase where
  "G1 = \<lparr>key = ''G1'', element_types = [(''Widget'', Plain ''widget'' [''Cast''])]\<rparr>"

definition G1_mod :: Mod where
  "G1_mod = \<lparr>author = ''tester'', mod_id = ''examplemod'', mod_name = ''Example Mod'',
             version = ''0.1.0'', generator = ''G1'', elements = [],
             startup_actions = [], action_capture_stack = [], bound_generator = G1\<rparr>"

definition Widget_Foo :: element where
  "Widget_Foo = BaseElement_init (Plain ''widget'' [''Cast'']) (Some ''Foo'') []"

text \<open>
  A generator that offers its category \<open>Widget\<close> under the name \<open>name\<close>, and a Mod
  built on it.
\<close>

definition Named :: GeneratorBase where
  "Named = \<lparr>key = ''named'', element_types = [(''name'', Plain ''widget'' [''Cast''])]\<rparr>"

definition Named_mod :: Mod where
  "Named_mod = \<lparr>author = ''tester'', mod_id = ''examplemod'', mod_name = ''Example Mod'',
                version = ''0.1.0'', generator = ''named'', elements = [],
                startup_actions = [], action_capture_stack = [], bound_generator = Named\<rparr>"

text \<open>
  From \<open>tests/test_fabric_generator.py\<close>: a Mod with the id \<open>demo_mod\<close> on the Fabric
  generator (of whose element classes the modelled ones are listed).
\<close>

definition Fabric_modelled :: GeneratorBase where
  "Fabric_modelled =
     \<lparr>key = ''minecraft-fabric-1.21.11'',
      element_types = [(''Item'', FabricItem), (''Block'', FabricBlock),
                       (''Recipe'', FabricRecipe), (''Tag'', FabricTag),
                       (''Entity'', FabricEntity), (''Worldgen'', FabricWorldgen)]\<rparr>"

definition demo_mod :: Mod where
  "demo_mod = \<lparr>author = ''tester'', mod_id = ''demo_mod'', mod_name = ''Demo Mod'',
               version = ''0.1.0'', generator = ''minecraft-fabric-1.21.11'', elements = [],
               startup_actions = [], action_capture_stack = [],
               bound_generator = Fabric_modelled\<rparr>"

text \<open>
  The worldgen entry of \<open>tests/test_fabric_generator.py\<close>:
  \<open>mod.Worldgen(worldgen_type="placed_feature", identifier="ruby_ore_patch",
  payload={"feature": "minecraft:ore_diamond", "placement": []})\<close>, and the property
  bag of the same entry declared with the type \<open>configured_feature\<close>.
\<close>

definition ruby_ore_patch :: element where
  "ruby_ore_patch =
     \<lparr>cls = FabricWorldgen, name = ''placed_feature_ruby_ore_patch'',
      properties =
        [(''worldgen_type'', JStr ''placed_feature''),
         (''identifier'', JStr ''ruby_ore_patch''),
         (''namespace'', JStr ''demo_mod''),
         (''payload'', JObj [(''feature'', JStr ''minecraft:ore_diamond''),
                             (''placement'', JList [])]),
         (''payload_file'', JNull)],
      events = []\<rparr>"

definition configured_ore_props :: "(string \<times> json) list" where
  "configured_ore_props =
     [(''worldgen_type'', JStr ''configured_feature''),
      (''identifier'', JStr ''ruby_ore_patch''),
      (''namespace'', JStr ''demo_mod''),
      (''payload'', JObj [(''feature'', JStr ''minecraft:ore_diamond''),
                          (''placement'', JList [])]),
      (''payload_file'', JNull)]"

text \<open>
  The recipe and the tag of \<open>tests/test_fabric_generator.py\<close> (the tag with two more
  values): \<open>mod.Recipe(recipe_type="shaped", identifier="ruby_block_from_ruby",
  output="ruby_block", pattern=["RRR", "RRR", "RRR"], key={"R": "ruby"})\<close> and
  \<open>mod.Tag(registry="item", identifier="c:gems/ruby", values=["ruby",
  "minecraft:emerald", "Gold Ingot"])\<close>.
\<close>

definition ruby_block_from_ruby :: element where
  "ruby_block_from_ruby =
     \<lparr>cls = FabricRecipe, name = ''ruby_block_from_ruby'',
      properties =
        [(''identifier'', JStr ''ruby_block_from_ruby''),
         (''recipe_type'', JStr ''shaped''),
         (''output'', JStr ''ruby_block''),
         (''count'', JInt 1),
         (''pattern'', JList [JStr ''RRR'', JStr ''RRR'', JStr ''RRR'']),
         (''key'', JObj [(''R'', JStr ''ruby'')]),
         (''ingredients'', JList []),
         (''input_item'', JNull),
         (''experience'', JFloat 0),
         (''cooking_time'', JInt 200)],
      events = []\<rparr>"

definition gems_ruby :: element where
  "gems_ruby =
     \<lparr>cls = FabricTag, name = ''c_gems/ruby'',
      properties =
        [(''registry'', JStr ''item''),
         (''namespace'', JStr ''c''),
         (''identifier'', JStr ''gems/ruby''),
         (''values'', JList [JStr ''ruby'', JStr ''minecraft:emerald'', JStr ''Gold Ingot'']),
         (''replace'', JBool False)],
      events = []\<rparr>"






section \<open>Properties of the normalizer\<close>

lemma set_re_sub_plus: "set (re_sub_plus P repl s) \<subseteq> set repl \<union> {c \<in> set s. \<not> P c}"
proof (induction P repl s rule: re_sub_plus.induct)
  case (1 P repl)
  show ?case by simp
next
  case (2 P repl c cs)
  show ?case
  proof (cases "P c")
    case True
    have "set (dropWhile P cs) \<subseteq> set cs"
      by (auto dest: set_dropWhileD)
    with 2(1)[OF True] True show ?thesis by auto
  next
    case False
    with 2(2)[OF False] show ?thesis by auto
  qed
qed

lemma strip_chars_subset: "set (strip_chars P s) \<subseteq> set s"
proof -
  have "set (drop_end P (dropWhile P s)) \<subseteq> set (dropWhile P s)"
    using set_dropWhileD[of _ P "rev (dropWhile P s)"] by (auto simp: drop_end_def)
  moreover have "set (dropWhile P s) \<subseteq> set s"
    by (auto dest: set_dropWhileD)
  ultimately show ?thesis by (auto simp: strip_chars_def)
qed

lemma last_dropWhile_nonempty: "dropWhile P xs \<noteq> [] \<Longrightarrow> last (dropWhile P xs) = last xs"
  by (metis last_appendR takeWhile_dropWhile_id)

lemma strip_chars_ends:
  assumes "strip_chars P s \<noteq> []"
  shows "\<not> P (hd (strip_chars P s))" and "\<not> P (last (strip_chars P s))"
proof -
  define t where "t = dropWhile P s"
  define u where "u = dropWhile P (rev t)"
  have res: "strip_chars P s = rev u"
    by (simp add: strip_chars_def drop_end_def t_def u_def)
  with assms have u: "u \<noteq> []" by simp
  then have t: "t \<noteq> []" by (auto simp: u_def)
  have "last (strip_chars P s) = hd u"
    using u by (simp add: res last_rev)
  moreover have "\<not> P (hd u)"
    using u unfolding u_def by (rule hd_dropWhile)
  ultimately show "\<not> P (last (strip_chars P s))" by simp
  have "hd (strip_chars P s) = last u"
    using u by (simp add: res hd_rev)
  also have "\<dots> = last (rev t)"
    using u unfolding u_def by (rule last_dropWhile_nonempty)
  also have "\<dots> = hd t"
    using t by (simp add: last_rev)
  finally have "hd (strip_chars P s) = hd t" .
  moreover have "\<not> P (hd t)"
    using t unfolding t_def by (rule hd_dropWhile)
  ultimately show "\<not> P (hd (strip_chars P s))" by simp
qed

lemma normalized_id_path_chars: "set (normalized_id_path v) \<subseteq> Collect id_path_char"
proof -
  have us: "id_path_char (CHR ''_'')" by (simp add: id_path_char_def)
  have a: "set (re_sub_plus (\<lambda>c. \<not> id_path_char c) ''_'' s) \<subseteq> Collect id_path_char" for s
    using set_re_sub_plus[of "\<lambda>c. \<not> id_path_char c" "''_''" s] us by auto
  have b: "set (re_sub_plus (\<lambda>c. c = CHR ''_'') ''_'' s) \<subseteq> insert (CHR ''_'') (set s)" for s
    using set_re_sub_plus[of "\<lambda>c. c = CHR ''_''" "''_''" s] by auto
  have c: "set (re_sub_plus (\<lambda>c. c = CHR ''_'') ''_'' (re_sub_plus (\<lambda>c. \<not> id_path_char c) ''_'' s))
             \<subseteq> Collect id_path_char" for s
    using a[of s] b[of "re_sub_plus (\<lambda>c. \<not> id_path_char c) ''_'' s"] us by auto
  show ?thesis
    unfolding normalized_id_path_def Let_def
    by (rule subset_trans[OF strip_chars_subset c])
qed

lemma collapse_us_cons: "collapse_underscores (CHR ''_'' # cs) = CHR ''_'' # collapse_underscores (dropWhile (\<lambda>c. c = CHR ''_'') cs)"
  by (induction cs) auto

lemma collapse_other_cons: "c \<noteq> CHR ''_'' \<Longrightarrow> collapse_underscores (c # cs) = c # collapse_underscores cs"
  by (cases cs) auto

lemma re_sub_us_collapse: "re_sub_plus (\<lambda>c. c = CHR ''_'') ''_'' s = collapse_underscores s"
proof (induction "\<lambda>c. c = CHR ''_''" "''_''" s rule: re_sub_plus.induct)
  case 1
  show ?case by simp
next
  case (2 c cs)
  then show ?case by (simp add: collapse_us_cons collapse_other_cons)
qed

lemma collapse_Nil_iff: "collapse_underscores s = [] \<longleftrightarrow> s = []"
  by (induction s rule: collapse_underscores.induct) auto

lemma hd_collapse: "hd (collapse_underscores s) = hd s"
  by (induction s rule: collapse_underscores.induct) auto

lemma collapse_us_cons_cases:
  "collapse_underscores (CHR ''_'' # s) =
     (if collapse_underscores s \<noteq> [] \<and> hd (collapse_underscores s) = CHR ''_''
      then collapse_underscores s else CHR ''_'' # collapse_underscores s)"
proof (cases s)
  case Nil
  then show ?thesis by simp
next
  case (Cons d ds)
  show ?thesis
  proof (cases "d = CHR ''_''")
    case True
    with Cons show ?thesis
      using hd_collapse[of s] collapse_Nil_iff[of s] by simp
  next
    case False
    with Cons show ?thesis
      using hd_collapse[of s] by simp
  qed
qed

lemma collapse_cong:
  assumes "collapse_underscores x = collapse_underscores y"
  shows "collapse_underscores (c # x) = collapse_underscores (c # y)"
proof (cases "c = CHR ''_''")
  case True
  then show ?thesis using assms by (simp add: collapse_us_cons_cases)
next
  case False
  then show ?thesis using assms by (simp add: collapse_other_cons)
qed

lemma collapse_us_map_dropWhile:
  "collapse_underscores (CHR ''_'' # map underscore_outside cs) =
   collapse_underscores (CHR ''_'' # map underscore_outside (dropWhile (\<lambda>c. \<not> id_path_char c) cs))"
  by (induction cs) (auto simp: underscore_outside_def)

lemma collapse_re_sub_outside:
  "collapse_underscores (re_sub_plus (\<lambda>c. \<not> id_path_char c) ''_'' s) =
   collapse_underscores (map underscore_outside s)"
proof (induction "\<lambda>c. \<not> id_path_char c" "''_''" s rule: re_sub_plus.induct)
  case 1
  show ?case by simp
next
  case (2 c cs)
  show ?case
  proof (cases "id_path_char c")
    case True
    with 2(2) have "collapse_underscores (re_sub_plus (\<lambda>c. \<not> id_path_char c) ''_'' cs) =
        collapse_underscores (map underscore_outside cs)" by simp
    from collapse_cong[OF this, of c] True show ?thesis
      by (simp add: underscore_outside_def)
  next
    case False
    with 2(1) have "collapse_underscores
          (re_sub_plus (\<lambda>c. \<not> id_path_char c) ''_'' (dropWhile (\<lambda>c. \<not> id_path_char c) cs)) =
        collapse_underscores (map underscore_outside (dropWhile (\<lambda>c. \<not> id_path_char c) cs))"
      by simp
    from collapse_cong[OF this, of "CHR ''_''"] False show ?thesis
      using collapse_us_map_dropWhile[of cs] by (simp add: underscore_outside_def)
  qed
qed


lemma isspace_outside: "isspace c \<Longrightarrow> \<not> id_path_char c"
  by (auto simp: isspace_def id_path_char_def Let_def less_eq_char_def)

lemma us_inside: "id_path_char CHR ''_''"
  by (simp add: id_path_char_def)

lemma sep_us: "separator_char CHR ''_''"
  by (simp add: separator_char_def)


lemma drop_end_decomp: "s = drop_end P s @ rev (takeWhile P (rev s))"
proof -
  have "rev (takeWhile P (rev s) @ dropWhile P (rev s)) = s"
    by (simp only: takeWhile_dropWhile_id rev_rev_ident)
  then have "rev (dropWhile P (rev s)) @ rev (takeWhile P (rev s)) = s"
    by (simp only: rev_append)
  then show ?thesis by (simp only: drop_end_def)
qed

lemma drop_end_Cons:
  "drop_end P (c # y) = (if drop_end P y = [] then (if P c then [] else [c]) else c # drop_end P y)"
proof (cases "\<forall>x\<in>set y. P x")
  case True
  then have "dropWhile P (rev y) = []" by simp
  moreover from True have "dropWhile P (rev y @ [c]) = dropWhile P [c]"
    using dropWhile_append2[of "rev y" P "[c]"] by simp
  ultimately show ?thesis by (simp add: drop_end_def)
next
  case False
  then obtain x where "x \<in> set (rev y)" "\<not> P x" by auto
  then have "dropWhile P (rev y @ [c]) = dropWhile P (rev y) @ [c]"
    by (rule dropWhile_append1)
  moreover from False have "dropWhile P (rev y) \<noteq> []" by simp
  ultimately show ?thesis by (simp add: drop_end_def)
qed

lemma drop_end_cong: "drop_end P x = drop_end P y \<Longrightarrow> drop_end P (c # x) = drop_end P (c # y)"
  by (simp add: drop_end_Cons)

lemma drop_end_dropWhile_commute: "drop_end P (dropWhile P s) = dropWhile P (drop_end P s)"
proof (induction s)
  case Nil
  show ?case by (simp add: drop_end_def)
next
  case (Cons c s)
  show ?case
  proof (cases "P c")
    case True
    have "dropWhile P (drop_end P (c # s)) = dropWhile P (drop_end P s)"
      using True by (simp add: drop_end_Cons)
    with Cons True show ?thesis by simp
  next
    case False
    then show ?thesis by (simp add: drop_end_Cons)
  qed
qed

lemma strip_collapse_leading:
  "\<forall>c\<in>set us. c = CHR ''_'' \<Longrightarrow>
   strip_chars separator_char (collapse_underscores (us @ x)) =
   strip_chars separator_char (collapse_underscores x)"
proof (induction us)
  case Nil
  show ?case by simp
next
  case (Cons u us)
  then have u: "u = CHR ''_''" and ih: "strip_chars separator_char (collapse_underscores (us @ x)) =
      strip_chars separator_char (collapse_underscores x)" by auto
  have "strip_chars separator_char (collapse_underscores (CHR ''_'' # (us @ x))) =
        strip_chars separator_char (collapse_underscores (us @ x))"
    by (simp add: collapse_us_cons_cases strip_chars_def sep_us)
  with u ih show ?case by simp
qed

lemma drop_end_collapse_snoc:
  "drop_end separator_char (collapse_underscores (x @ [CHR ''_''])) =
   drop_end separator_char (collapse_underscores x)"
proof (induction x rule: collapse_underscores.induct)
  case (1 c d cs)
  show ?case
  proof (cases "c = CHR ''_'' \<and> d = CHR ''_''")
    case True
    with 1(1) show ?thesis by simp
  next
    case False
    with 1(2) have "drop_end separator_char (collapse_underscores (d # cs @ [CHR ''_''])) =
        drop_end separator_char (collapse_underscores (d # cs))" by simp
    from drop_end_cong[OF this, of c] False show ?thesis by auto
  qed
qed (simp_all add: drop_end_def sep_us)

lemma drop_end_collapse_trailing:
  "\<forall>c\<in>set us. c = CHR ''_'' \<Longrightarrow>
   drop_end separator_char (collapse_underscores (x @ us)) =
   drop_end separator_char (collapse_underscores x)"
proof (induction us arbitrary: x)
  case Nil
  show ?case by simp
next
  case (Cons u us)
  then have u: "u = CHR ''_''" and rest: "\<forall>c\<in>set us. c = CHR ''_''" by auto
  have "drop_end separator_char (collapse_underscores ((x @ [CHR ''_'']) @ us)) =
        drop_end separator_char (collapse_underscores (x @ [CHR ''_'']))"
    using Cons.IH[OF rest, of "x @ [CHR ''_'']"] .
  with u show ?case by (simp add: drop_end_collapse_snoc)
qed

lemma strip_collapse_trailing:
  assumes "\<forall>c\<in>set us. c = CHR ''_''"
  shows "strip_chars separator_char (collapse_underscores (x @ us)) =
         strip_chars separator_char (collapse_underscores x)"
proof -
  have "strip_chars separator_char (collapse_underscores (x @ us)) =
        dropWhile separator_char (drop_end separator_char (collapse_underscores (x @ us)))"
    by (simp add: strip_chars_def drop_end_dropWhile_commute)
  also have "\<dots> = dropWhile separator_char (drop_end separator_char (collapse_underscores x))"
    by (simp add: drop_end_collapse_trailing[OF assms])
  also have "\<dots> = strip_chars separator_char (collapse_underscores x)"
    by (simp add: strip_chars_def drop_end_dropWhile_commute)
  finally show ?thesis .
qed

lemma strip_collapse_py_strip:
  "strip_chars separator_char (collapse_underscores (map underscore_outside (py_strip s))) =
   strip_chars separator_char (collapse_underscores (map underscore_outside s))"
proof -
  define a where "a = takeWhile isspace s"
  define m where "m = dropWhile isspace s"
  define b where "b = rev (takeWhile isspace (rev m))"
  have s: "s = a @ py_strip s @ b"
    using drop_end_decomp[of m isspace]
    by (simp add: a_def b_def m_def py_strip_def strip_chars_def)
  have a: "\<forall>c\<in>set (map underscore_outside a). c = CHR ''_''"
    using set_takeWhileD[of _ isspace s] isspace_outside
    by (auto simp: a_def underscore_outside_def)
  have b: "\<forall>c\<in>set (map underscore_outside b). c = CHR ''_''"
    using set_takeWhileD[of _ isspace "rev m"] isspace_outside
    by (auto simp: b_def underscore_outside_def)
  have "map underscore_outside s =
        map underscore_outside a @ (map underscore_outside (py_strip s) @ map underscore_outside b)"
    using arg_cong[OF s, of "map underscore_outside"] by simp
  then have "strip_chars separator_char (collapse_underscores (map underscore_outside s)) =
     strip_chars separator_char (collapse_underscores
        (map underscore_outside (py_strip s) @ map underscore_outside b))"
    by (simp only: strip_collapse_leading[OF a])
  also have "\<dots> = strip_chars separator_char (collapse_underscores (map underscore_outside (py_strip s)))"
    by (rule strip_collapse_trailing[OF b])
  finally show ?thesis by simp
qed

lemma outside_replace_space:
  "map underscore_outside (replace_char (CHR '' '') CHR ''_'' s) = map underscore_outside s"
proof -
  have sp: "underscore_outside (CHR '' '') = CHR ''_''"
    by (simp add: underscore_outside_def id_path_char_def)
  have us: "underscore_outside CHR ''_'' = CHR ''_''"
    by (simp add: underscore_outside_def)
  show ?thesis
    by (induction s) (simp_all add: replace_char_def sp us)
qed

lemma normalized_id_path_Some:
  "normalized_id_path (Some raw) =
   strip_chars separator_char (collapse_underscores (map underscore_outside (py_lower raw)))"
proof -
  have "normalized_id_path (Some raw) =
     strip_chars separator_char (collapse_underscores
       (map underscore_outside (replace_char (CHR '' '') CHR ''_'' (py_strip (py_lower raw)))))"
    by (simp add: normalized_id_path_def Let_def re_sub_us_collapse collapse_re_sub_outside)
  then show ?thesis
    by (simp only: outside_replace_space strip_collapse_py_strip)
qed

section \<open>C4: shape of a normalized path\<close>

text \<open>
  Claim C4. For every raw input string whose normalization result is not empty (so that
  the fallback is not used), the output of \<open>_normalize_id_path\<close> consists of characters
  of \<open>[a-z0-9/._-]\<close> only, and neither its first nor its last character is a separator
  (underscore, dot, slash or hyphen).
\<close>

theorem normalize_id_path_shape:
  assumes "normalized_id_path (Some raw) \<noteq> []"
  shows "list_all id_path_char (normalize_id_path (Some raw) fallback) \<and>
         \<not> separator_char (hd (normalize_id_path (Some raw) fallback)) \<and>
         \<not> separator_char (last (normalize_id_path (Some raw) fallback))"
proof -
  have eq: "normalize_id_path (Some raw) fallback = normalized_id_path (Some raw)"
    using assms by (simp add: normalize_id_path_def)
  have "list_all id_path_char (normalized_id_path (Some raw))"
    using normalized_id_path_chars[of "Some raw"] by (auto simp: list_all_iff)
  moreover have "\<not> separator_char (hd (normalized_id_path (Some raw)))"
    and "\<not> separator_char (last (normalized_id_path (Some raw)))"
    using assms strip_chars_ends[of separator_char]
    unfolding normalized_id_path_def Let_def by blast+
  ultimately show ?thesis by (simp add: eq)
qed

theorem normalize_id_path_shape_witness:
  "normalized_id_path (Some '' Ruby Block! '') \<noteq> [] \<and>
   normalize_id_path (Some '' Ruby Block! '') ''item'' = ''ruby_block'' \<and>
   list_all id_path_char (normalize_id_path (Some '' Ruby Block! '') ''item'') \<and>
   \<not> separator_char (hd (normalize_id_path (Some '' Ruby Block! '') ''item'')) \<and>
   \<not> separator_char (last (normalize_id_path (Some '' Ruby Block! '') ''item''))"
proof -
  have e: "normalized_id_path (Some '' Ruby Block! '') = ''ruby_block''"
    by code_simp
  then have h: "normalized_id_path (Some '' Ruby Block! '') \<noteq> []" by simp
  have v: "normalize_id_path (Some '' Ruby Block! '') ''item'' = ''ruby_block''"
    by (simp add: normalize_id_path_def e)
  from normalize_id_path_shape[OF h, of "''item''"] h v show ?thesis by simp
qed

section \<open>C3: what the normalizer computes\<close>

text \<open>
  As the specification words it, a character outside \<open>[a-z0-9/._-]\<close> is removed. The
  code replaces it by an underscore: \<open>"a!b"\<close> becomes \<open>"a_b"\<close>, not \<open>"ab"\<close>.
\<close>

theorem normalize_path_spec_counterexample:
  "normalize_id_path (Some ''a!b'') ''x'' = ''a_b'' \<and>
   normalize_path_spec ''a!b'' ''x'' = ''ab'' \<and>
   normalize_id_path (Some ''a!b'') ''x'' \<noteq> normalize_path_spec ''a!b'' ''x''"
proof -
  have a: "normalize_id_path (Some ''a!b'') ''x'' = ''a_b''" by code_simp
  have b: "normalize_path_spec ''a!b'' ''x'' = ''ab''" by code_simp
  show ?thesis by (simp add: a b)
qed

text \<open>
  Claim C3, amended. For every input string and fallback, \<open>_normalize_id_path\<close>
  lower-cases the input, replaces whitespace by underscores, replaces every character
  outside \<open>[a-z0-9/._-]\<close> by an underscore, collapses repeated underscores into one,
  trims leading and trailing separators, and returns the fallback when the result is
  empty and the result otherwise; a missing value (\<open>None\<close>) gives the fallback. The
  function is total: it has no failing branch.
\<close>

theorem normalize_id_path_amended:
  "normalize_id_path (Some raw) fallback = normalize_path_amended raw fallback \<and>
   normalize_id_path None fallback = fallback"
proof -
  have none: "normalize_id_path None fallback = fallback"
    by (simp add: normalize_id_path_def normalized_id_path_def py_strip_def py_lower_def
        strip_chars_def drop_end_def replace_char_def)
  have "(\<lambda>c. if id_path_char c then c else CHR ''_'') \<circ> (\<lambda>c. if isspace c then CHR ''_'' else c) =
        underscore_outside"
    using isspace_outside by (auto simp: fun_eq_iff underscore_outside_def us_inside)
  then have "normalize_id_path (Some raw) fallback = normalize_path_amended raw fallback"
    by (simp add: normalize_id_path_def normalize_path_amended_def Let_def normalized_id_path_Some)
  with none show ?thesis by simp
qed

theorem normalize_id_path_amended_witness:
  "normalize_id_path (Some ''Ruby  Block!!v2'') ''item'' = ''ruby_block_v2'' \<and>
   normalize_path_amended ''Ruby  Block!!v2'' ''item'' = ''ruby_block_v2'' \<and>
   normalize_id_path (Some ''?!'') ''item'' = ''item''"
proof -
  have a: "normalize_path_amended ''Ruby  Block!!v2'' ''item'' = ''ruby_block_v2''"
    by code_simp
  have b: "normalize_path_amended ''?!'' ''item'' = ''item''"
    by code_simp
  from normalize_id_path_amended[of "''Ruby  Block!!v2''" "''item''"]
    normalize_id_path_amended[of "''?!''" "''item''"] a b
  show ?thesis by simp
qed

section \<open>Handlers and the capture stack\<close>





lemma run_action_capture_from_exec:
  assumes "exec func (w\<lparr>the_mod := (the_mod w)\<lparr>action_capture_stack :=
              action_capture_stack (the_mod w) @ [[]]\<rparr>\<rparr>) = (res, w2)"
    and "the_mod w2 = (the_mod w)\<lparr>action_capture_stack := action_capture_stack (the_mod w) @ [acts]\<rparr>"
  shows "run_action_capture func w =
           ((case res of Some e \<Rightarrow> Inl e | None \<Rightarrow> Inr acts), w2\<lparr>the_mod := the_mod w\<rparr>)"
proof -
  have "(the_mod w2)\<lparr>action_capture_stack := butlast (action_capture_stack (the_mod w2))\<rparr> = the_mod w"
    by (simp add: assms(2))
  moreover have "last (action_capture_stack (the_mod w2)) = acts"
    by (simp add: assms(2))
  ultimately show ?thesis
    using assms(1) by (simp add: Let_def split: option.split)
qed


section \<open>C7: the registry contract\<close>

lemma register_generator_keys:
  "fst ` set (snd (register_generator g replace reg)) =
     (if fst (register_generator g replace reg) = None then insert (key g) (fst ` set reg)
      else fst ` set reg)"
proof -
  have "fst ` set (AList.update (key g) g reg) = insert (key g) (fst ` set reg)"
    using dom_update [of "key g" g reg] by (simp add: set_map [symmetric] del: set_map)
  then show ?thesis by (simp add: register_generator_def)
qed

lemma register_generator_distinct:
  "distinct (map fst reg) \<Longrightarrow> distinct (map fst (snd (register_generator g replace reg)))"
  by (simp add: register_generator_def distinct_update)

lemma registered_snoc:
  "registered (calls @ [(g, replace)]) = snd (register_generator g replace (registered calls))"
  by (simp add: registered_def)

lemma registered_distinct: "distinct (map fst (registered calls))"
proof (induction calls rule: rev_induct)
  case Nil
  show ?case by (simp add: registered_def)
next
  case (snoc c calls)
  obtain g replace where c: "c = (g, replace)" by (cases c)
  show ?case unfolding c registered_snoc by (rule register_generator_distinct [OF snoc])
qed

lemma registered_keys:
  "fst ` set (registered calls) = {k. k \<noteq> [] \<and> (\<exists>g replace. (g, replace) \<in> set calls \<and> key g = k)}"
proof (induction calls rule: rev_induct)
  case Nil
  show ?case by (simp add: registered_def)
next
  case (snoc c calls)
  obtain g replace where c: "c = (g, replace)" by (cases c)
  let ?K = "{k. k \<noteq> [] \<and> (\<exists>g replace. (g, replace) \<in> set calls \<and> key g = k)}"
  have s: "{k. k \<noteq> [] \<and> (\<exists>g' r. (g', r) \<in> set (calls @ [c]) \<and> key g' = k)}
           = (if key g = [] then ?K else insert (key g) ?K)"
    unfolding c by auto
  have "fst ` set (registered (calls @ [c])) = (if key g = [] then ?K else insert (key g) ?K)"
  proof (cases "fst (register_generator g replace (registered calls)) = None")
    case True
    then have "key g \<noteq> []" by (auto simp: register_generator_def split: if_splits)
    with True show ?thesis
      unfolding c registered_snoc register_generator_keys snoc by simp
  next
    case False
    then have "key g = [] \<or> key g \<in> fst ` set (registered calls)"
      by (auto simp: register_generator_def split: if_splits)
    then have "key g = [] \<or> key g \<in> ?K" unfolding snoc .
    then have "key g = [] \<or> insert (key g) ?K = ?K" by (auto simp only: insert_absorb)
    with False show ?thesis
      unfolding c registered_snoc register_generator_keys snoc by auto
  qed
  with s show ?case by simp
qed

text \<open>
  Claim C7. Registering a generator whose key is already present with \<open>replace\<close> false
  fails with a duplicate-key error and leaves the registry unchanged. Registering with
  \<open>replace\<close> true (or under a key that is not present) succeeds: a subsequent \<open>get\<close> of
  that key returns the new instance, a \<open>get\<close> of any other key returns what it returned
  before, and the listing gains that key and no other. Registering a generator with an
  empty key always fails and leaves the registry unchanged. Getting an absent key fails
  with a not-found error, getting a present key succeeds. Listing returns the keys of
  the registry in sorted order; after any sequence of registrations these are exactly
  the non-empty keys that were registered, each once.
\<close>

theorem registry_contract:
  "(key g \<noteq> [] \<and> key g \<in> fst ` set reg \<longrightarrow>
      register_generator g False reg =
        (Some (KeyError (''Generator '' @ [CHR 0x27] @ key g @ [CHR 0x27] @ '' is already registered'')),
         reg)) \<and>
   (key g \<noteq> [] \<and> (replace \<or> key g \<notin> fst ` set reg) \<longrightarrow>
      fst (register_generator g replace reg) = None \<and>
      get_generator (snd (register_generator g replace reg)) (key g) = Inr g \<and>
      (\<forall>k'. k' \<noteq> key g \<longrightarrow>
         get_generator (snd (register_generator g replace reg)) k' = get_generator reg k') \<and>
      set (list_generators (snd (register_generator g replace reg))) =
        insert (key g) (set (list_generators reg))) \<and>
   (key g = [] \<longrightarrow>
      register_generator g replace reg =
        (Some (ValueError ''Generator key must be a non-empty string''), reg)) \<and>
   (k \<notin> fst ` set reg \<longrightarrow> get_generator reg k = Inl (KeyError k)) \<and>
   (k \<in> fst ` set reg \<longrightarrow> (\<exists>g'. get_generator reg k = Inr g')) \<and>
   sorted (list_generators reg) \<and>
   set (list_generators reg) = fst ` set reg \<and>
   set (list_generators (registered calls)) =
     {k. k \<noteq> [] \<and> (\<exists>g' replace'. (g', replace') \<in> set calls \<and> key g' = k)} \<and>
   distinct (list_generators (registered calls))"
proof -
  have dup: "key g \<noteq> [] \<and> key g \<in> fst ` set reg \<longrightarrow>
      register_generator g False reg =
        (Some (KeyError (''Generator '' @ [CHR 0x27] @ key g @ [CHR 0x27] @ '' is already registered'')),
         reg)"
    by (simp add: register_generator_def)
  have ok: "key g \<noteq> [] \<and> (replace \<or> key g \<notin> fst ` set reg) \<longrightarrow>
      fst (register_generator g replace reg) = None \<and>
      get_generator (snd (register_generator g replace reg)) (key g) = Inr g \<and>
      (\<forall>k'. k' \<noteq> key g \<longrightarrow>
         get_generator (snd (register_generator g replace reg)) k' = get_generator reg k') \<and>
      set (list_generators (snd (register_generator g replace reg))) =
        insert (key g) (set (list_generators reg))"
  proof
    assume h: "key g \<noteq> [] \<and> (replace \<or> key g \<notin> fst ` set reg)"
    then have r: "register_generator g replace reg = (None, AList.update (key g) g reg)"
      by (auto simp: register_generator_def)
    have 1: "get_generator (AList.update (key g) g reg) (key g) = Inr g"
      by (simp add: get_generator_def update_conv')
    have 2: "\<forall>k'. k' \<noteq> key g \<longrightarrow>
         get_generator (AList.update (key g) g reg) k' = get_generator reg k'"
      by (simp add: get_generator_def update_conv')
    have 3: "set (list_generators (snd (register_generator g replace reg))) =
        insert (key g) (set (list_generators reg))"
      using register_generator_keys [of g replace reg] r by (simp add: list_generators_def)
    from r 1 2 3 show "fst (register_generator g replace reg) = None \<and>
      get_generator (snd (register_generator g replace reg)) (key g) = Inr g \<and>
      (\<forall>k'. k' \<noteq> key g \<longrightarrow>
         get_generator (snd (register_generator g replace reg)) k' = get_generator reg k') \<and>
      set (list_generators (snd (register_generator g replace reg))) =
        insert (key g) (set (list_generators reg))"
      by simp
  qed
  have empty: "key g = [] \<longrightarrow>
      register_generator g replace reg =
        (Some (ValueError ''Generator key must be a non-empty string''), reg)"
    by (simp add: register_generator_def)
  have absent: "k \<notin> fst ` set reg \<longrightarrow> get_generator reg k = Inl (KeyError k)"
    using map_of_eq_None_iff [of reg k] by (auto simp: get_generator_def)
  have present: "k \<in> fst ` set reg \<longrightarrow> (\<exists>g'. get_generator reg k = Inr g')"
    using map_of_eq_None_iff [of reg k] by (auto simp: get_generator_def split: option.splits)
  have srt: "sorted (list_generators reg)" and st: "set (list_generators reg) = fst ` set reg"
    by (simp_all add: list_generators_def)
  have all: "set (list_generators (registered calls)) =
     {k. k \<noteq> [] \<and> (\<exists>g' replace'. (g', replace') \<in> set calls \<and> key g' = k)}"
    using registered_keys [of calls] by (simp add: list_generators_def)
  have dist: "distinct (list_generators (registered calls))"
    by (simp add: list_generators_def registered_distinct)
  from dup ok empty absent present srt st all dist show ?thesis by blast
qed

theorem registry_contract_witness:
  "register_generator NoItemGenerator False
     [(''demo-no-item-1.0'', G1\<lparr>key := ''demo-no-item-1.0''\<rparr>),
      (''minecraft-fabric-1.21.11'', Fabric_modelled)] =
     (Some (KeyError (''Generator '' @ [CHR 0x27] @ ''demo-no-item-1.0'' @ [CHR 0x27] @
                      '' is already registered'')),
      [(''demo-no-item-1.0'', G1\<lparr>key := ''demo-no-item-1.0''\<rparr>),
       (''minecraft-fabric-1.21.11'', Fabric_modelled)]) \<and>
   fst (register_generator NoItemGenerator True
     [(''demo-no-item-1.0'', G1\<lparr>key := ''demo-no-item-1.0''\<rparr>),
      (''minecraft-fabric-1.21.11'', Fabric_modelled)]) = None \<and>
   get_generator (snd (register_generator NoItemGenerator True
     [(''demo-no-item-1.0'', G1\<lparr>key := ''demo-no-item-1.0''\<rparr>),
      (''minecraft-fabric-1.21.11'', Fabric_modelled)])) ''demo-no-item-1.0'' = Inr NoItemGenerator \<and>
   get_generator (snd (register_generator NoItemGenerator True
     [(''demo-no-item-1.0'', G1\<lparr>key := ''demo-no-item-1.0''\<rparr>),
      (''minecraft-fabric-1.21.11'', Fabric_modelled)])) ''minecraft-fabric-1.21.11'' =
     Inr Fabric_modelled \<and>
   list_generators (snd (register_generator G1 False
     [(''demo-no-item-1.0'', G1\<lparr>key := ''demo-no-item-1.0''\<rparr>),
      (''minecraft-fabric-1.21.11'', Fabric_modelled)])) =
     [''G1'', ''demo-no-item-1.0'', ''minecraft-fabric-1.21.11''] \<and>
   register_generator (G1\<lparr>key := []\<rparr>) True
     [(''demo-no-item-1.0'', G1\<lparr>key := ''demo-no-item-1.0''\<rparr>),
      (''minecraft-fabric-1.21.11'', Fabric_modelled)] =
     (Some (ValueError ''Generator key must be a non-empty string''),
      [(''demo-no-item-1.0'', G1\<lparr>key := ''demo-no-item-1.0''\<rparr>),
       (''minecraft-fabric-1.21.11'', Fabric_modelled)]) \<and>
   get_generator
     [(''demo-no-item-1.0'', G1\<lparr>key := ''demo-no-item-1.0''\<rparr>),
      (''minecraft-fabric-1.21.11'', Fabric_modelled)] ''does-not-exist'' =
     Inl (KeyError ''does-not-exist'') \<and>
   list_generators (registered [(Fabric_modelled, False), (NoItemGenerator, True), (G1, False),
                                (G1\<lparr>key := []\<rparr>, True), (NoItemGenerator, False)]) =
     [''G1'', ''demo-no-item-1.0'', ''minecraft-fabric-1.21.11''] \<and>
   distinct (list_generators (registered [(Fabric_modelled, False), (NoItemGenerator, True),
                                          (G1, False), (G1\<lparr>key := []\<rparr>, True),
                                          (NoItemGenerator, False)]))"
proof -
  let ?reg = "[(''demo-no-item-1.0'', G1\<lparr>key := ''demo-no-item-1.0''\<rparr>),
               (''minecraft-fabric-1.21.11'', Fabric_modelled)]"
  let ?calls = "[(Fabric_modelled, False), (NoItemGenerator, True), (G1, False),
                 (G1\<lparr>key := []\<rparr>, True), (NoItemGenerator, False)]"
  have k1: "key NoItemGenerator = ''demo-no-item-1.0''" by (simp add: NoItemGenerator_def)
  have k2: "key G1 = ''G1''" by (simp add: G1_def)
  have k3: "key Fabric_modelled = ''minecraft-fabric-1.21.11''" by (simp add: Fabric_modelled_def)
  note A = registry_contract [of NoItemGenerator ?reg True "''does-not-exist''" ?calls]
  have a: "register_generator NoItemGenerator False ?reg =
     (Some (KeyError (''Generator '' @ [CHR 0x27] @ ''demo-no-item-1.0'' @ [CHR 0x27] @
                      '' is already registered'')), ?reg)"
    using A by (simp add: k1)
  have b: "fst (register_generator NoItemGenerator True ?reg) = None"
    and c: "get_generator (snd (register_generator NoItemGenerator True ?reg)) ''demo-no-item-1.0'' =
              Inr NoItemGenerator"
    and d: "\<forall>k'. k' \<noteq> ''demo-no-item-1.0'' \<longrightarrow>
              get_generator (snd (register_generator NoItemGenerator True ?reg)) k' =
              get_generator ?reg k'"
    and e: "get_generator ?reg ''does-not-exist'' = Inl (KeyError ''does-not-exist'')"
    and f: "distinct (list_generators (registered ?calls))"
    using A by (simp_all add: k1)
  have d': "get_generator (snd (register_generator NoItemGenerator True ?reg))
              ''minecraft-fabric-1.21.11'' = Inr Fabric_modelled"
    using d by (simp add: get_generator_def)
  note B = registry_contract [of "G1\<lparr>key := []\<rparr>" ?reg True "''x''" "[]"]
  have g: "register_generator (G1\<lparr>key := []\<rparr>) True ?reg =
     (Some (ValueError ''Generator key must be a non-empty string''), ?reg)"
    using B by simp
  have h: "list_generators (snd (register_generator G1 False ?reg)) =
     [''G1'', ''demo-no-item-1.0'', ''minecraft-fabric-1.21.11'']"
    by (simp add: register_generator_def k2 list_generators_def)
  have i: "list_generators (registered ?calls) =
     [''G1'', ''demo-no-item-1.0'', ''minecraft-fabric-1.21.11'']"
    by (simp add: registered_def register_generator_def k1 k2 k3 list_generators_def)
  from a b c d' h g e i f show ?thesis by blast
qed

section \<open>C5: action capture\<close>



section \<open>C8: constructing a Mod and its factories\<close>

lemma BaseElement_init_cls:
  "cls (BaseElement_init c nm props) = c" "events (BaseElement_init c nm props) = []"
  "properties (BaseElement_init c nm props) = props"
  by (simp_all add: BaseElement_init_def)

lemma FabricItem_init_cls:
  "FabricItem_init i n tx mo c mc d f r = Inr e \<Longrightarrow> cls e = FabricItem \<and> events e = []"
  by (auto simp: FabricItem_init_def Let_def BaseElement_init_cls)

lemma FabricBlock_init_cls:
  "FabricBlock_init i n tx mo h r l rt c = Inr e \<Longrightarrow> cls e = FabricBlock \<and> events e = []"
  by (auto simp: FabricBlock_init_def Let_def BaseElement_init_cls)

lemma FabricRecipe_init_cls:
  "FabricRecipe_init rt out i c p k ing inp ex ct = Inr e \<Longrightarrow> cls e = FabricRecipe \<and> events e = []"
  by (auto simp: FabricRecipe_init_def Let_def BaseElement_init_cls split: if_splits)

lemma FabricTag_init_cls:
  "FabricTag_init m reg i vs r = Inr e \<Longrightarrow> cls e = FabricTag \<and> events e = []"
  by (auto simp: FabricTag_init_def Let_def BaseElement_init_cls split: if_splits prod.splits)

lemma FabricEntity_init_cls:
  "FabricEntity_init i n sg w h mh ms ad c p s tr tu f = Inr e \<Longrightarrow> cls e = FabricEntity \<and> events e = []"
  by (auto simp: FabricEntity_init_def Let_def BaseElement_init_cls and_then_def
      split: if_splits sum.splits option.splits)

lemma FabricWorldgen_init_cls:
  "FabricWorldgen_init m wt i ns p pf = Inr e \<Longrightarrow> cls e = FabricWorldgen \<and> events e = []"
  by (auto simp: FabricWorldgen_init_def Let_def BaseElement_init_cls split: if_splits)

lemma new_element_cls:
  assumes "new_element t m args = Inr e"
  shows "cls e = t \<and> events e = []"
proof (cases args)
  case (PlainArgs nm props)
  with assms show ?thesis
    by (cases t) (auto simp: new_element_def BaseElement_init_cls)
next
  case (ItemArgs i n tx mo c mc d f r)
  with assms FabricItem_init_cls [of i n tx mo c mc d f r e] show ?thesis
    by (auto simp: new_element_def split: if_splits)
next
  case (BlockArgs i n tx mo h r l rt c)
  with assms FabricBlock_init_cls [of i n tx mo h r l rt c e] show ?thesis
    by (auto simp: new_element_def split: if_splits)
next
  case (RecipeArgs rt out i c p k ing inp ex ct)
  with assms FabricRecipe_init_cls [of rt out i c p k ing inp ex ct e] show ?thesis
    by (auto simp: new_element_def split: if_splits)
next
  case (TagArgs reg i vs r)
  with assms FabricTag_init_cls [of m reg i vs r e] show ?thesis
    by (auto simp: new_element_def split: if_splits)
next
  case (EntityArgs i n sg w h mh ms ad c p s tr tu f)
  with assms FabricEntity_init_cls [of i n sg w h mh ms ad c p s tr tu f e] show ?thesis
    by (auto simp: new_element_def split: if_splits)
next
  case (WorldgenArgs wt i ns p pf)
  with assms FabricWorldgen_init_cls [of m wt i ns p pf e] show ?thesis
    by (auto simp: new_element_def split: if_splits)
qed

lemma new_element_Plain:
  "new_element (Plain kind evs) m (PlainArgs nm props) =
     Inr \<lparr>cls = Plain kind evs, name = (if truthy nm then the nm else kind),
          properties = props, events = []\<rparr>"
  by (simp add: new_element_def BaseElement_init_def)

lemma new_element_Worldgen_namespace:
  assumes "new_element FabricWorldgen m (WorldgenArgs wt ident None p None) = Inr e"
  shows "map_of (properties e) ''namespace'' = Some (JStr (mod_id m))"
  using assms
  by (auto simp: new_element_def FabricWorldgen_init_def Let_def BaseElement_init_def truthy_def)

lemma Mod_getattribute_category:
  assumes "\<not> own_attribute nm" "\<not> special_name nm"
  shows "Mod_getattribute m nm =
           (case Mod_getattr m nm of Inl e \<Rightarrow> Inl e | Inr factory \<Rightarrow> Inr (Factory factory))"
proof -
  from assms(1) have "map_of (instance_attributes m) nm = None"
    by (simp add: own_attribute_def instance_attributes_def)
  with assms show ?thesis by (simp add: Mod_getattribute_def own_attribute_def)
qed

lemma Mod_getattribute_own:
  assumes "own_attribute nm"
  shows "(\<exists>a. Mod_getattribute m nm = Inr a \<and> (\<forall>factory. a \<noteq> Factory factory))"
proof (cases "map_of (instance_attributes m) nm")
  case (Some a)
  then have "\<forall>factory. a \<noteq> Factory factory"
    by (auto simp: instance_attributes_def split: if_splits)
  with Some show ?thesis by (simp add: Mod_getattribute_def)
next
  case None
  then have "nm \<notin> set [''author'', ''mod_id'', ''name'', ''version'', ''generator'', ''elements'',
               ''startup_actions'', ''_action_capture_stack'', ''_generator'']"
    by (auto simp: instance_attributes_def split: if_splits)
  with assms have "nm \<in> set Mod_methods"
    unfolding own_attribute_def by blast
  with None show ?thesis by (simp add: Mod_getattribute_def)
qed

text \<open>
  Claim C8. Constructing a Mod with a generator key that is not in the registry raises
  \<open>KeyError\<close> at construction (no Mod results, so no element can be declared through
  it); with a registered key it succeeds and binds that key's generator. For a name
  that is not an attribute or a method of the Mod object itself (and does not begin
  with two underscores): requesting a category name the bound generator does not
  offer fails with \<open>AttributeError\<close>; a supported
  name yields a factory that calls that category's class with this Mod as owner, and
  what the factory builds is an element of that class with no events yet (for a class
  with the base constructor: the given name, or the kind when none is given, and the
  given properties; for a worldgen entry without a namespace: the namespace is this
  Mod's id). A name that is an attribute or a method of the Mod object (\<open>name\<close>,
  \<open>elements\<close>, \<open>add\<close>, ...) yields that attribute, never a factory and never an
  error, whatever the generator offers.
\<close>

theorem mod_construction:
  "(k \<notin> fst ` set reg \<longrightarrow> Mod_init reg a k i n v = Inl (KeyError k)) \<and>
   (map_of reg k = Some g \<longrightarrow>
      Mod_init reg a k i n v =
        Inr \<lparr>author = a, mod_id = i, mod_name = n, version = v, generator = k,
             elements = [], startup_actions = [], action_capture_stack = [],
             bound_generator = g\<rparr>) \<and>
   (\<not> own_attribute nm \<and> \<not> special_name nm \<and> nm \<notin> fst ` set (element_types (bound_generator m)) \<longrightarrow>
      Mod_getattribute m nm = Inl (AttributeError nm)) \<and>
   (\<not> own_attribute nm \<and> \<not> special_name nm \<and> map_of (element_types (bound_generator m)) nm = Some t \<longrightarrow>
      (\<exists>factory. Mod_getattribute m nm = Inr (Factory factory) \<and>
         (\<forall>args. factory args = new_element t m args) \<and>
         (\<forall>args e. factory args = Inr e \<longrightarrow> cls e = t \<and> events e = []) \<and>
         (\<forall>kind evs nm' props. t = Plain kind evs \<longrightarrow>
            factory (PlainArgs nm' props) =
              Inr \<lparr>cls = t, name = (if truthy nm' then the nm' else kind),
                   properties = props, events = []\<rparr>) \<and>
         (\<forall>wt ident p e. t = FabricWorldgen \<and>
            factory (WorldgenArgs wt ident None p None) = Inr e \<longrightarrow>
            map_of (properties e) ''namespace'' = Some (JStr (mod_id m))))) \<and>
   (own_attribute nm \<longrightarrow>
      (\<exists>a. Mod_getattribute m nm = Inr a \<and> (\<forall>factory. a \<noteq> Factory factory))) \<and>
   Mod_getattribute m ''name'' = Inr (String_attribute (mod_name m)) \<and>
   Mod_getattribute m ''elements'' = Inr (Elements_attribute (elements m)) \<and>
   Mod_getattribute m ''add'' = Inr (Method ''add'')"
proof -
  have a: "k \<notin> fst ` set reg \<longrightarrow> Mod_init reg a k i n v = Inl (KeyError k)"
    using map_of_eq_None_iff [of reg k] by (auto simp: Mod_init_def get_generator_def)
  have b: "map_of reg k = Some g \<longrightarrow>
      Mod_init reg a k i n v =
        Inr \<lparr>author = a, mod_id = i, mod_name = n, version = v, generator = k,
             elements = [], startup_actions = [], action_capture_stack = [],
             bound_generator = g\<rparr>"
    by (simp add: Mod_init_def get_generator_def)
  have c: "\<not> own_attribute nm \<and> \<not> special_name nm \<and> nm \<notin> fst ` set (element_types (bound_generator m)) \<longrightarrow>
      Mod_getattribute m nm = Inl (AttributeError nm)"
    using map_of_eq_None_iff [of "element_types (bound_generator m)" nm]
    by (auto simp: Mod_getattribute_category Mod_getattr_def)
  have d: "\<not> own_attribute nm \<and> \<not> special_name nm \<and> map_of (element_types (bound_generator m)) nm = Some t \<longrightarrow>
      (\<exists>factory. Mod_getattribute m nm = Inr (Factory factory) \<and>
         (\<forall>args. factory args = new_element t m args) \<and>
         (\<forall>args e. factory args = Inr e \<longrightarrow> cls e = t \<and> events e = []) \<and>
         (\<forall>kind evs nm' props. t = Plain kind evs \<longrightarrow>
            factory (PlainArgs nm' props) =
              Inr \<lparr>cls = t, name = (if truthy nm' then the nm' else kind),
                   properties = props, events = []\<rparr>) \<and>
         (\<forall>wt ident p e. t = FabricWorldgen \<and>
            factory (WorldgenArgs wt ident None p None) = Inr e \<longrightarrow>
            map_of (properties e) ''namespace'' = Some (JStr (mod_id m))))"
  proof
    assume h: "\<not> own_attribute nm \<and> \<not> special_name nm \<and> map_of (element_types (bound_generator m)) nm = Some t"
    then have 1: "Mod_getattribute m nm = Inr (Factory (\<lambda>args. new_element t m args))"
      by (simp add: Mod_getattribute_category Mod_getattr_def)
    have 2: "\<forall>args e. new_element t m args = Inr e \<longrightarrow> cls e = t \<and> events e = []"
      using new_element_cls by blast
    have 3: "\<forall>kind evs nm' props. t = Plain kind evs \<longrightarrow>
            new_element t m (PlainArgs nm' props) =
              Inr \<lparr>cls = t, name = (if truthy nm' then the nm' else kind),
                   properties = props, events = []\<rparr>"
      using new_element_Plain by blast
    have 4: "\<forall>wt ident p e. t = FabricWorldgen \<and>
            new_element t m (WorldgenArgs wt ident None p None) = Inr e \<longrightarrow>
            map_of (properties e) ''namespace'' = Some (JStr (mod_id m))"
      using new_element_Worldgen_namespace by blast
    show "\<exists>factory. Mod_getattribute m nm = Inr (Factory factory) \<and>
         (\<forall>args. factory args = new_element t m args) \<and>
         (\<forall>args e. factory args = Inr e \<longrightarrow> cls e = t \<and> events e = []) \<and>
         (\<forall>kind evs nm' props. t = Plain kind evs \<longrightarrow>
            factory (PlainArgs nm' props) =
              Inr \<lparr>cls = t, name = (if truthy nm' then the nm' else kind),
                   properties = props, events = []\<rparr>) \<and>
         (\<forall>wt ident p e. t = FabricWorldgen \<and>
            factory (WorldgenArgs wt ident None p None) = Inr e \<longrightarrow>
            map_of (properties e) ''namespace'' = Some (JStr (mod_id m)))"
      using 1 2 3 4 by (intro exI [of _ "\<lambda>args. new_element t m args"]) simp
  qed
  have e: "own_attribute nm \<longrightarrow>
      (\<exists>a. Mod_getattribute m nm = Inr a \<and> (\<forall>factory. a \<noteq> Factory factory))"
    by (rule impI) (rule Mod_getattribute_own)
  have f: "Mod_getattribute m ''name'' = Inr (String_attribute (mod_name m))"
    "Mod_getattribute m ''elements'' = Inr (Elements_attribute (elements m))"
    "Mod_getattribute m ''add'' = Inr (Method ''add'')"
    by (simp_all add: Mod_getattribute_def instance_attributes_def Mod_methods_def)
  from a b c d e f show ?thesis by blast
qed

text \<open>
  The claim as the specification words it, for every category name, on the code: a
  generator may offer a category under the name \<open>name\<close>; \<open>mod.name\<close> is then the name
  of the Mod, not a factory, because \<open>__getattr__\<close> is not reached. And \<open>mod.elements\<close>,
  a name the generator does not offer, raises nothing.
\<close>

theorem category_name_counterexample:
  "Mod_init [(''named'', Named)] ''tester'' ''named'' ''examplemod'' ''Example Mod'' ''0.1.0'' =
     Inr Named_mod \<and>
   map_of (element_types (bound_generator Named_mod)) ''name'' = Some (Plain ''widget'' [''Cast'']) \<and>
   Mod_getattribute Named_mod ''name'' = Inr (String_attribute ''Example Mod'') \<and>
   ''elements'' \<notin> fst ` set (element_types (bound_generator Named_mod)) \<and>
   Mod_getattribute Named_mod ''elements'' = Inr (Elements_attribute [])"
  by (simp add: Mod_init_def get_generator_def Named_mod_def Named_def Mod_getattribute_def
        instance_attributes_def)

theorem mod_construction_witness:
  "Mod_init [(''G1'', G1)] ''tester'' ''does-not-exist'' ''examplemod'' ''Example Mod'' ''0.1.0'' =
     Inl (KeyError ''does-not-exist'') \<and>
   Mod_init [(''G1'', G1)] ''tester'' ''G1'' ''examplemod'' ''Example Mod'' ''0.1.0'' = Inr G1_mod \<and>
   Mod_getattribute G1_mod ''Item'' = Inl (AttributeError ''Item'') \<and>
   (\<exists>factory. Mod_getattribute G1_mod ''Widget'' = Inr (Factory factory) \<and>
      factory (PlainArgs (Some ''Foo'') []) = Inr Widget_Foo) \<and>
   (\<exists>a. Mod_getattribute G1_mod ''compile'' = Inr a) \<and>
   Mod_getattribute G1_mod ''name'' = Inr (String_attribute ''Example Mod'')"
proof -
  let ?reg = "[(''G1'', G1)]"
  let ?W = "Plain ''widget'' [''Cast'']"
  have et: "element_types (bound_generator G1_mod) = [(''Widget'', ?W)]"
    by (simp add: G1_mod_def G1_def)
  have n1: "\<not> own_attribute ''Item''" "\<not> special_name ''Item''"
    and n2: "\<not> own_attribute ''Widget''" "\<not> special_name ''Widget''"
    and o: "own_attribute ''compile''"
    by (simp_all add: own_attribute_def special_name_def Mod_methods_def)
  note A = mod_construction [of "''does-not-exist''" ?reg "''tester''" "''examplemod''"
      "''Example Mod''" "''0.1.0''" G1 "''Item''" G1_mod ?W]
  have a: "Mod_init ?reg ''tester'' ''does-not-exist'' ''examplemod'' ''Example Mod'' ''0.1.0'' =
      Inl (KeyError ''does-not-exist'')"
    and c: "Mod_getattribute G1_mod ''Item'' = Inl (AttributeError ''Item'')"
    using A n1 by (simp_all add: et)
  note B = mod_construction [of "''G1''" ?reg "''tester''" "''examplemod''" "''Example Mod''"
      "''0.1.0''" G1 "''Widget''" G1_mod ?W]
  have b: "Mod_init ?reg ''tester'' ''G1'' ''examplemod'' ''Example Mod'' ''0.1.0'' = Inr G1_mod"
    using B by (simp add: G1_mod_def)
  have "\<exists>factory. Mod_getattribute G1_mod ''Widget'' = Inr (Factory factory) \<and>
          (\<forall>kind evs nm' props. ?W = Plain kind evs \<longrightarrow>
            factory (PlainArgs nm' props) =
              Inr \<lparr>cls = ?W, name = (if truthy nm' then the nm' else kind),
                   properties = props, events = []\<rparr>)"
    using B n2 et by auto
  then obtain factory where f1: "Mod_getattribute G1_mod ''Widget'' = Inr (Factory factory)"
    and f2: "factory (PlainArgs (Some ''Foo'') []) =
              Inr \<lparr>cls = ?W, name = (if truthy (Some ''Foo'') then the (Some ''Foo'') else ''widget''),
                   properties = [], events = []\<rparr>"
    by blast
  have "factory (PlainArgs (Some ''Foo'') []) = Inr Widget_Foo"
    using f2 by (simp add: Widget_Foo_def BaseElement_init_def)
  with f1 have d: "\<exists>factory. Mod_getattribute G1_mod ''Widget'' = Inr (Factory factory) \<and>
      factory (PlainArgs (Some ''Foo'') []) = Inr Widget_Foo"
    by blast
  note C = mod_construction [of "''G1''" ?reg "''tester''" "''examplemod''" "''Example Mod''"
      "''0.1.0''" G1 "''compile''" G1_mod ?W]
  from C have "own_attribute ''compile'' \<longrightarrow>
      (\<exists>a. Mod_getattribute G1_mod ''compile'' = Inr a \<and> (\<forall>factory. a \<noteq> Factory factory))"
    by (elim conjE)
  with o obtain a' where "Mod_getattribute G1_mod ''compile'' = Inr a'" by (elim impE exE conjE)
  then have e: "\<exists>a. Mod_getattribute G1_mod ''compile'' = Inr a" by (rule exI)
  have f: "Mod_getattribute G1_mod ''name'' = Inr (String_attribute ''Example Mod'')"
    using C by (simp add: G1_mod_def)
  from a b c d e f show ?thesis by blast
qed

section \<open>C6: the serialized form of an element\<close>

lemma register_single_send:
  assumes "ev \<in> set (EVENT_NAMES (cls (heap w r)))"
  shows "Event_decorator r ev (SendConsole c) w =
           (None, w\<lparr>heap := (heap w)
               (r := (heap w r)\<lparr>events := events_append ev [console_action c] (events (heap w r))\<rparr>)\<rparr>)"
proof -
  let ?w1 = "w\<lparr>the_mod := (the_mod w)\<lparr>action_capture_stack :=
               action_capture_stack (the_mod w) @ [[]]\<rparr>\<rparr>"
  have e: "exec (SendConsole c) ?w1 =
      (None, w\<lparr>the_mod := (the_mod w)\<lparr>action_capture_stack :=
               action_capture_stack (the_mod w) @ [[console_action c]]\<rparr>\<rparr>)"
    by (simp add: sendConsole_def Let_def)
  have "run_action_capture (SendConsole c) w = (Inr [console_action c], w)"
    using run_action_capture_from_exec[OF e, of "[console_action c]"] by simp
  with assms show ?thesis by simp
qed

lemma Foo_item_id: "normalize_id_path (py_or None (Some ''Foo'')) ''item'' = ''foo''"
  by code_simp

text \<open>
  The scenario of the specification, on the code: a \<open>Widget\<close> that inherits the
  constructor of \<open>BaseElement\<close> keeps the name \<open>"Foo"\<close> it was given. The base
  constructor does not normalize; the manifest shows \<open>"Foo"\<close>, not \<open>"foo"\<close>.
\<close>

theorem base_element_name_counterexample:
  "Mod_init [(''G1'', G1)] ''tester'' ''G1'' ''examplemod'' ''Example Mod'' ''0.1.0'' = Inr G1_mod \<and>
   (case Mod_getattr G1_mod ''Widget'' of
      Inl err \<Rightarrow> Inl err
    | Inr factory \<Rightarrow> factory (PlainArgs (Some ''Foo'') [])) = Inr Widget_Foo \<and>
   name Widget_Foo = ''Foo'' \<and>
   name Widget_Foo \<noteq> ''foo'' \<and>
   to_manifest
     ((snd (Event_decorator 0 ''Cast'' (SendConsole ''ping'')
              \<lparr>the_mod = G1_mod, heap = (\<lambda>r. Widget_Foo)\<rparr>))
      \<lparr>the_mod := Mod_add 0 G1_mod\<rparr>) =
   JObj [(''author'', JStr ''tester''),
         (''generator'', JStr ''G1''),
         (''mod_id'', JStr ''examplemod''),
         (''name'', JStr ''Example Mod''),
         (''version'', JStr ''0.1.0''),
         (''startup_actions'', JList []),
         (''elements'',
            JList [JObj [(''kind'', JStr ''widget''),
                         (''name'', JStr ''Foo''),
                         (''properties'', JObj []),
                         (''events'', JObj [(''Cast'', JList [JList
                            [JObj [(''type'', JStr ''console''),
                                   (''command'', JStr ''ping'')]]])])]])]"
proof -
  have a: "Mod_init [(''G1'', G1)] ''tester'' ''G1'' ''examplemod'' ''Example Mod'' ''0.1.0'' = Inr G1_mod"
    by (simp add: Mod_init_def get_generator_def G1_mod_def)
  have b: "(case Mod_getattr G1_mod ''Widget'' of
      Inl err \<Rightarrow> Inl err
    | Inr factory \<Rightarrow> factory (PlainArgs (Some ''Foo'') [])) = Inr Widget_Foo"
    by (simp add: Mod_getattr_def G1_mod_def G1_def new_element_def Widget_Foo_def)
  have c: "name Widget_Foo = ''Foo''"
    by (simp add: Widget_Foo_def BaseElement_init_def truthy_def)
  have ok: "''Cast'' \<in> set (EVENT_NAMES (cls (heap \<lparr>the_mod = G1_mod, heap = (\<lambda>r. Widget_Foo)\<rparr> 0)))"
    by (simp add: Widget_Foo_def BaseElement_init_def)
  have d: "to_manifest
     ((snd (Event_decorator 0 ''Cast'' (SendConsole ''ping'')
              \<lparr>the_mod = G1_mod, heap = (\<lambda>r. Widget_Foo)\<rparr>))
      \<lparr>the_mod := Mod_add 0 G1_mod\<rparr>) =
   JObj [(''author'', JStr ''tester''),
         (''generator'', JStr ''G1''),
         (''mod_id'', JStr ''examplemod''),
         (''name'', JStr ''Example Mod''),
         (''version'', JStr ''0.1.0''),
         (''startup_actions'', JList []),
         (''elements'',
            JList [JObj [(''kind'', JStr ''widget''),
                         (''name'', JStr ''Foo''),
                         (''properties'', JObj []),
                         (''events'', JObj [(''Cast'', JList [JList
                            [JObj [(''type'', JStr ''console''),
                                   (''command'', JStr ''ping'')]]])])]])]"
    unfolding register_single_send[OF ok]
    by (simp add: to_manifest_def Mod_add_def G1_mod_def to_dict_def Widget_Foo_def
        BaseElement_init_def truthy_def events_append_def console_action_def)
  from a b c d show ?thesis by simp
qed

text \<open>
  Claim C6, amended. For an Item of the Fabric generator constructed with the name
  \<open>"Foo"\<close> and no identifier, the stored element name is the normalized \<open>"foo"\<close> and
  the event table is empty. After registering on it one handler for an allowed event
  whose body performs a single \<open>sendConsole("ping")\<close>, the element's serialized form
  has the kind tag \<open>"item"\<close>, the name \<open>"foo"\<close>, and an events mapping that binds that
  event name to exactly \<open>[[{"type": "console", "command": "ping"}]]\<close>; after \<open>add\<close>,
  \<open>to_manifest\<close> lists the elements in declaration order, with this one last.
\<close>

theorem fabric_item_manifest:
  assumes "ev \<in> set (EVENT_NAMES FabricItem)"
  shows "\<exists>e. FabricItem_init None (Some ''Foo'') texture model tab max_count durability fireproof rarity
            = Inr e \<and>
          name e = ''foo'' \<and> events e = [] \<and>
          (\<forall>w r. heap w r = e \<longrightarrow>
             (let result = Event_decorator r ev (SendConsole ''ping'') w;
                  w1 = snd result;
                  entry = JObj [(''kind'', JStr ''item''),
                                (''name'', JStr ''foo''),
                                (''properties'', JObj (properties e)),
                                (''events'', JObj [(ev, JList [JList
                                   [JObj [(''type'', JStr ''console''),
                                          (''command'', JStr ''ping'')]]])])]
              in fst result = None \<and>
                 to_dict (heap w1 r) = entry \<and>
                 to_manifest (w1\<lparr>the_mod := Mod_add r (the_mod w1)\<rparr>) =
                   JObj [(''author'', JStr (author (the_mod w))),
                         (''generator'', JStr (generator (the_mod w))),
                         (''mod_id'', JStr (mod_id (the_mod w))),
                         (''name'', JStr (mod_name (the_mod w))),
                         (''version'', JStr (version (the_mod w))),
                         (''startup_actions'', JList (startup_actions (the_mod w))),
                         (''elements'',
                            JList (map (\<lambda>a. to_dict (heap w1 a)) (elements (the_mod w)) @
                                   [entry]))]))"
proof -
  define e where "e = BaseElement_init FabricItem (Some ''foo'')
           [(''identifier'', JStr ''foo''),
            (''display_name'', JStr ''Foo''),
            (''texture'', opt_str texture),
            (''model'', opt_str model),
            (''creative_tab'', creative_tab_prop tab),
            (''max_count'', JInt (max 1 max_count)),
            (''durability'', (case durability of None \<Rightarrow> JNull | Some d \<Rightarrow> JInt (max 1 d))),
            (''fireproof'', JBool fireproof),
            (''rarity'', JStr (case map_of RARITIES (py_lower rarity) of
                           None \<Rightarrow> ''COMMON'' | Some r \<Rightarrow> r))]"
  have init: "FabricItem_init None (Some ''Foo'') texture model tab max_count durability fireproof rarity
            = Inr e"
    by (simp add: FabricItem_init_def Foo_item_id e_def truthy_def Let_def)
  have nm: "name e = ''foo''" and evs: "events e = []" and c: "cls e = FabricItem"
    by (simp_all add: e_def BaseElement_init_def truthy_def)
  have main: "let result = Event_decorator r ev (SendConsole ''ping'') w;
                  w1 = snd result;
                  entry = JObj [(''kind'', JStr ''item''),
                                (''name'', JStr ''foo''),
                                (''properties'', JObj (properties e)),
                                (''events'', JObj [(ev, JList [JList
                                   [JObj [(''type'', JStr ''console''),
                                          (''command'', JStr ''ping'')]]])])]
              in fst result = None \<and>
                 to_dict (heap w1 r) = entry \<and>
                 to_manifest (w1\<lparr>the_mod := Mod_add r (the_mod w1)\<rparr>) =
                   JObj [(''author'', JStr (author (the_mod w))),
                         (''generator'', JStr (generator (the_mod w))),
                         (''mod_id'', JStr (mod_id (the_mod w))),
                         (''name'', JStr (mod_name (the_mod w))),
                         (''version'', JStr (version (the_mod w))),
                         (''startup_actions'', JList (startup_actions (the_mod w))),
                         (''elements'',
                            JList (map (\<lambda>a. to_dict (heap w1 a)) (elements (the_mod w)) @
                                   [entry]))]"
    if h: "heap w r = e" for w r
  proof -
    have ok: "ev \<in> set (EVENT_NAMES (cls (heap w r)))"
      using assms h c by simp
    have d: "to_dict ((heap w r)\<lparr>events := events_append ev [console_action ''ping''] (events (heap w r))\<rparr>) =
        JObj [(''kind'', JStr ''item''),
              (''name'', JStr ''foo''),
              (''properties'', JObj (properties e)),
              (''events'', JObj [(ev, JList [JList
                 [JObj [(''type'', JStr ''console''), (''command'', JStr ''ping'')]]])])]"
      by (simp add: h to_dict_def nm evs c events_append_def console_action_def)
    show ?thesis
      unfolding register_single_send[OF ok] Let_def
      using d by (simp add: to_manifest_def Mod_add_def Let_def)
  qed
  from init nm evs main show ?thesis by blast
qed


theorem fabric_item_manifest_witness:
  "\<exists>e. FabricItem_init None (Some ''Foo'') None None None 64 None False ''common'' = Inr e \<and>
        name e = ''foo'' \<and>
        to_manifest
          ((snd (Event_decorator 0 ''Drop'' (SendConsole ''ping'')
                   \<lparr>the_mod = demo_mod, heap = (\<lambda>r. e)\<rparr>))
           \<lparr>the_mod := Mod_add 0 (the_mod (snd (Event_decorator 0 ''Drop'' (SendConsole ''ping'')
                   \<lparr>the_mod = demo_mod, heap = (\<lambda>r. e)\<rparr>)))\<rparr>) =
        JObj [(''author'', JStr ''tester''),
              (''generator'', JStr ''minecraft-fabric-1.21.11''),
              (''mod_id'', JStr ''demo_mod''),
              (''name'', JStr ''Demo Mod''),
              (''version'', JStr ''0.1.0''),
              (''startup_actions'', JList []),
              (''elements'',
                 JList [JObj [(''kind'', JStr ''item''),
                              (''name'', JStr ''foo''),
                              (''properties'', JObj (properties e)),
                              (''events'', JObj [(''Drop'', JList [JList
                                 [JObj [(''type'', JStr ''console''),
                                        (''command'', JStr ''ping'')]]])])]])]"
proof -
  have ev: "''Drop'' \<in> set (EVENT_NAMES FabricItem)" by simp
  from fabric_item_manifest[OF ev, of None None None 64 None False "''common''"]
  obtain e where init: "FabricItem_init None (Some ''Foo'') None None None 64 None False ''common'' = Inr e"
    and nm: "name e = ''foo''"
    and all: "\<forall>w r. heap w r = e \<longrightarrow>
             (let result = Event_decorator r ''Drop'' (SendConsole ''ping'') w;
                  w1 = snd result;
                  entry = JObj [(''kind'', JStr ''item''),
                                (''name'', JStr ''foo''),
                                (''properties'', JObj (properties e)),
                                (''events'', JObj [(''Drop'', JList [JList
                                   [JObj [(''type'', JStr ''console''),
                                          (''command'', JStr ''ping'')]]])])]
              in fst result = None \<and>
                 to_dict (heap w1 r) = entry \<and>
                 to_manifest (w1\<lparr>the_mod := Mod_add r (the_mod w1)\<rparr>) =
                   JObj [(''author'', JStr (author (the_mod w))),
                         (''generator'', JStr (generator (the_mod w))),
                         (''mod_id'', JStr (mod_id (the_mod w))),
                         (''name'', JStr (mod_name (the_mod w))),
                         (''version'', JStr (version (the_mod w))),
                         (''startup_actions'', JList (startup_actions (the_mod w))),
                         (''elements'',
                            JList (map (\<lambda>a. to_dict (heap w1 a)) (elements (the_mod w)) @
                                   [entry]))])"
    by blast
  from all[rule_format, of "\<lparr>the_mod = demo_mod, heap = (\<lambda>r. e)\<rparr>" 0]
  have "to_manifest
          ((snd (Event_decorator 0 ''Drop'' (SendConsole ''ping'')
                   \<lparr>the_mod = demo_mod, heap = (\<lambda>r. e)\<rparr>))
           \<lparr>the_mod := Mod_add 0 (the_mod (snd (Event_decorator 0 ''Drop'' (SendConsole ''ping'')
                   \<lparr>the_mod = demo_mod, heap = (\<lambda>r. e)\<rparr>)))\<rparr>) =
        JObj [(''author'', JStr ''tester''),
              (''generator'', JStr ''minecraft-fabric-1.21.11''),
              (''mod_id'', JStr ''demo_mod''),
              (''name'', JStr ''Demo Mod''),
              (''version'', JStr ''0.1.0''),
              (''startup_actions'', JList []),
              (''elements'',
                 JList [JObj [(''kind'', JStr ''item''),
                              (''name'', JStr ''foo''),
                              (''properties'', JObj (properties e)),
                              (''events'', JObj [(''Drop'', JList [JList
                                 [JObj [(''type'', JStr ''console''),
                                        (''command'', JStr ''ping'')]]])])]])]"
    by (simp add: Let_def demo_mod_def)
  with init nm show ?thesis by blast
qed

section \<open>C9: numeric fields out of range\<close>








section \<open>Reading property bags\<close>

lemma update_same: "map_of al k = Some v \<Longrightarrow> AList.update k v al = al"
  by (induction al) (auto split: if_splits)

lemma and_then_Inr: "and_then (Inr x) f = f x"
  by (simp add: and_then_def)

lemma and_then_Inl: "and_then (Inl e) f = Inl e"
  by (simp add: and_then_def)

lemma getitem_str: "map_of d k = Some (JStr s) \<Longrightarrow> and_then (getitem d k) py_str = Inr s"
  by (simp add: getitem_def py_str_def and_then_def)

lemma getitem_Some: "map_of d k = Some v \<Longrightarrow> getitem d k = Inr v"
  by (simp add: getitem_def)

lemma py_simps:
  "py_str (JStr s) = Inr s" "py_int (JInt n) = Inr n" "py_float (JFloat x) = Inr x"
  "py_bool (JBool b) = Inr b" "py_list (JList xs) = Inr xs" "py_dict (JObj d) = Inr d"
  by (simp_all add: py_str_def py_int_def py_float_def py_bool_def py_list_def py_dict_def)

section \<open>C10: the placed-feature alias\<close>

lemma rewrite_feature_cases:
  "(wt = ''placed_feature'' \<and> map_of payload ''feature'' = Some (JStr ''minecraft:ore_diamond'') \<longrightarrow>
      rewrite_feature wt payload =
        AList.update ''feature'' (JStr ''minecraft:ore_diamond_small'') payload) \<and>
   (wt \<noteq> ''placed_feature'' \<or> map_of payload ''feature'' \<noteq> Some (JStr ''minecraft:ore_diamond'') \<longrightarrow>
      rewrite_feature wt payload = payload)"
proof -
  have fa: "feature_alias f = (if f = ''minecraft:ore_diamond'' then ''minecraft:ore_diamond_small'' else f)" for f
    by (simp add: feature_alias_def WORLDGEN_FEATURE_ALIASES_def)
  have a: "rewrite_feature wt payload =
        AList.update ''feature'' (JStr ''minecraft:ore_diamond_small'') payload"
    if "wt = ''placed_feature''" "map_of payload ''feature'' = Some (JStr ''minecraft:ore_diamond'')"
    using that by (simp add: rewrite_feature_def dict_get_def fa)
  have b: "rewrite_feature wt payload = payload" if "wt \<noteq> ''placed_feature''"
    using that by (simp add: rewrite_feature_def)
  have c: "rewrite_feature wt payload = payload"
    if "map_of payload ''feature'' \<noteq> Some (JStr ''minecraft:ore_diamond'')"
  proof (cases "map_of payload ''feature''")
    case None
    then show ?thesis by (simp add: rewrite_feature_def dict_get_def)
  next
    case (Some v)
    show ?thesis
    proof (cases v)
      case (JStr f)
      with Some that have "f \<noteq> ''minecraft:ore_diamond''" by simp
      with Some JStr show ?thesis
        by (simp add: rewrite_feature_def dict_get_def fa update_same)
    qed (simp_all add: rewrite_feature_def dict_get_def Some)
  qed
  from a b c show ?thesis by blast
qed

lemma wg_n1: "normalize_id_path (Some ''placed_feature'') ''placed_feature'' = ''placed_feature''"
  by code_simp
lemma wg_n2: "normalize_id_path (Some ''ruby_ore_patch'') ''worldgen'' = ''ruby_ore_patch''"
  by code_simp
lemma wg_n3: "normalize_id_path (Some ''placed_feature_ruby_ore_patch'') ''worldgen'' =
    ''placed_feature_ruby_ore_patch''"
  by code_simp

text \<open>
  Claim C10. For every worldgen element whose payload resolves: if its
  \<open>worldgen_type\<close> is \<open>placed_feature\<close> and the payload has the string field
  \<open>feature\<close> equal to \<open>minecraft:ore_diamond\<close>, the payload is written with that field
  rewritten to \<open>minecraft:ore_diamond_small\<close> (the keys keep their order, the other
  fields their values); every other \<open>feature\<close> value, and the payload of every other
  \<open>worldgen_type\<close>, is written through unchanged.
\<close>

theorem worldgen_feature_alias:
  assumes "resolve_json_payload read_text json_loads
             (dict_get props ''payload'') (dict_get props ''payload_file'') = Inr payload"
    and "map_of props ''worldgen_type'' = Some (JStr wt)"
    and "map_of props ''namespace'' = Some (JStr ns)"
    and "map_of props ''identifier'' = Some (JStr ident)"
  shows "\<exists>written.
           write_worldgen_entry read_text json_loads data_dir props =
             Inr (data_dir @ [ns, ''worldgen'', wt, ident @ ''.json''], JObj written) \<and>
           (wt = ''placed_feature'' \<and>
            map_of payload ''feature'' = Some (JStr ''minecraft:ore_diamond'') \<longrightarrow>
              written = AList.update ''feature'' (JStr ''minecraft:ore_diamond_small'') payload \<and>
              map fst written = map fst payload \<and>
              map_of written = (map_of payload)(''feature'' \<mapsto> JStr ''minecraft:ore_diamond_small'')) \<and>
           (wt \<noteq> ''placed_feature'' \<or>
            map_of payload ''feature'' \<noteq> Some (JStr ''minecraft:ore_diamond'') \<longrightarrow>
              written = payload)"
proof -
  have w: "write_worldgen_entry read_text json_loads data_dir props =
      Inr (data_dir @ [ns, ''worldgen'', wt, ident @ ''.json''], JObj (rewrite_feature wt payload))"
    by (simp add: write_worldgen_entry_def assms(1) and_then_Inr getitem_str[OF assms(2)]
        getitem_str[OF assms(3)] getitem_str[OF assms(4)] Let_def)
  have keys: "map fst (AList.update ''feature'' v payload) = map fst payload"
    if "map_of payload ''feature'' = Some u" for u v
  proof -
    from that have "''feature'' \<in> fst ` set payload"
      by (metis map_of_eq_None_iff option.distinct(1))
    then show ?thesis by (simp add: update_keys)
  qed
  show ?thesis
  proof (cases "wt = ''placed_feature'' \<and>
                map_of payload ''feature'' = Some (JStr ''minecraft:ore_diamond'')")
    case True
    with rewrite_feature_cases[of wt payload]
    have r: "rewrite_feature wt payload =
        AList.update ''feature'' (JStr ''minecraft:ore_diamond_small'') payload" by blast
    have k: "map fst (AList.update ''feature'' (JStr ''minecraft:ore_diamond_small'') payload) =
        map fst payload"
      using keys True by blast
    have m: "map_of (AList.update ''feature'' (JStr ''minecraft:ore_diamond_small'') payload) =
        (map_of payload)(''feature'' \<mapsto> JStr ''minecraft:ore_diamond_small'')"
      by (simp add: update_conv fun_eq_iff)
    from w r k m True show ?thesis by simp
  next
    case False
    with rewrite_feature_cases[of wt payload]
    have "rewrite_feature wt payload = payload" by blast
    with w False show ?thesis by auto
  qed
qed


theorem worldgen_feature_alias_witness:
  "FabricWorldgen_init demo_mod ''placed_feature'' ''ruby_ore_patch'' None
     (Some [(''feature'', JStr ''minecraft:ore_diamond''), (''placement'', JList [])]) None =
     Inr ruby_ore_patch \<and>
   write_worldgen_entry (\<lambda>path. None) (\<lambda>text. None) [''data''] (properties ruby_ore_patch) =
     Inr ([''data'', ''demo_mod'', ''worldgen'', ''placed_feature'', ''ruby_ore_patch.json''],
          JObj [(''feature'', JStr ''minecraft:ore_diamond_small''), (''placement'', JList [])]) \<and>
   write_worldgen_entry (\<lambda>path. None) (\<lambda>text. None) [''data''] configured_ore_props =
     Inr ([''data'', ''demo_mod'', ''worldgen'', ''configured_feature'', ''ruby_ore_patch.json''],
          JObj [(''feature'', JStr ''minecraft:ore_diamond''), (''placement'', JList [])])"
proof -
  let ?payload = "[(''feature'', JStr ''minecraft:ore_diamond''), (''placement'', JList [])]"
  have init: "FabricWorldgen_init demo_mod ''placed_feature'' ''ruby_ore_patch'' None
     (Some ?payload) None = Inr ruby_ore_patch"
    by (simp add: FabricWorldgen_init_def wg_n1 wg_n2 wg_n3 Let_def truthy_def demo_mod_def
        BaseElement_init_def ruby_ore_patch_def opt_str_def)
  have r1: "resolve_json_payload (\<lambda>path. None) (\<lambda>text. None)
      (dict_get (properties ruby_ore_patch) ''payload'')
      (dict_get (properties ruby_ore_patch) ''payload_file'') = Inr ?payload"
    by (simp add: resolve_json_payload_def dict_get_def ruby_ore_patch_def)
  have r2: "resolve_json_payload (\<lambda>path. None) (\<lambda>text. None)
      (dict_get configured_ore_props ''payload'')
      (dict_get configured_ore_props ''payload_file'') = Inr ?payload"
    by (simp add: resolve_json_payload_def dict_get_def configured_ore_props_def)
  from worldgen_feature_alias[OF r1, of "''placed_feature''" "''demo_mod''" "''ruby_ore_patch''" "[''data'']"]
  have a: "write_worldgen_entry (\<lambda>path. None) (\<lambda>text. None) [''data''] (properties ruby_ore_patch) =
     Inr ([''data'', ''demo_mod'', ''worldgen'', ''placed_feature'', ''ruby_ore_patch.json''],
          JObj [(''feature'', JStr ''minecraft:ore_diamond_small''), (''placement'', JList [])])"
    by (auto simp: ruby_ore_patch_def)
  from worldgen_feature_alias[OF r2, of "''configured_feature''" "''demo_mod''" "''ruby_ore_patch''" "[''data'']"]
  have b: "write_worldgen_entry (\<lambda>path. None) (\<lambda>text. None) [''data''] configured_ore_props =
     Inr ([''data'', ''demo_mod'', ''worldgen'', ''configured_feature'', ''ruby_ore_patch.json''],
          JObj [(''feature'', JStr ''minecraft:ore_diamond''), (''placement'', JList [])])"
    by (auto simp: configured_ore_props_def)
  from init a b show ?thesis by simp
qed

section \<open>C1: cross-reference resolution\<close>

lemma colon_not_namespace: "\<not> namespace_char (CHR '':'')"
  by (simp add: namespace_char_def)

lemma is_literal_identifier_iff: "is_literal_identifier v \<longleftrightarrow> strict_namespace_path v"
proof
  assume lit: "is_literal_identifier v"
  define ns where "ns = takeWhile namespace_char v"
  from lit obtain path where d: "dropWhile namespace_char v = CHR '':'' # path"
    and p: "path \<noteq> []" "list_all id_path_char path" and n: "ns \<noteq> []"
    by (auto simp: is_literal_identifier_def ns_def split: list.splits)
  have "v = ns @ CHR '':'' # path"
    using takeWhile_dropWhile_id[of namespace_char v] d by (simp add: ns_def)
  moreover have "list_all namespace_char ns"
    using set_takeWhileD[of _ namespace_char v] by (auto simp: ns_def list_all_iff)
  ultimately show "strict_namespace_path v"
    using p n unfolding strict_namespace_path_def by blast
next
  assume "strict_namespace_path v"
  then obtain ns path where v: "v = ns @ CHR '':'' # path" and n: "ns \<noteq> []"
    and a: "list_all namespace_char ns" and p: "path \<noteq> []" "list_all id_path_char path"
    unfolding strict_namespace_path_def by blast
  from a have all: "\<forall>c\<in>set ns. namespace_char c" by (simp add: list_all_iff)
  have t: "takeWhile namespace_char v = ns"
    unfolding v using all colon_not_namespace by (simp add: takeWhile_tail)
  have d: "dropWhile namespace_char v = CHR '':'' # path"
    unfolding v using all colon_not_namespace by (simp add: dropWhile_append2)
  show "is_literal_identifier v"
    by (simp add: is_literal_identifier_def t d n p)
qed

lemma for_each_map:
  assumes "\<forall>x\<in>set xs. f x = Inr (g x)"
  shows "for_each f xs = Inr (map g xs)"
  using assms by (induction xs) (simp_all add: and_then_def)


lemma c1_eval:
  "is_literal_identifier ''minecraft:emerald''"
  "\<not> is_literal_identifier ''ruby''"
  "\<not> is_literal_identifier ''ruby_block''"
  "\<not> is_literal_identifier ''Gold Ingot''"
  "normalize_id_path (Some ''ruby'') ''generated'' = ''ruby''"
  "normalize_id_path (Some ''ruby_block'') ''generated'' = ''ruby_block''"
  "normalize_id_path (Some ''Gold Ingot'') ''generated'' = ''gold_ingot''"
  by code_simp+

lemma c1_recipe_eval:
  "py_strip (py_lower ''shaped'') = ''shaped''"
  "normalize_id_path (py_or (Some ''ruby_block_from_ruby'') (Some (''shaped'' @ ''_'' @ ''ruby_block'')))
     (''shaped'' @ ''_recipe'') = ''ruby_block_from_ruby''"
  "split_namespaced_id ''ruby_block_from_ruby'' ''demo_mod'' = (''demo_mod'', ''ruby_block_from_ruby'')"
  by code_simp+

lemma c1_tag_eval:
  "py_strip (py_lower ''item'') = ''item''"
  "split_namespaced_id ''c:gems/ruby'' ''demo_mod'' = (''c'', ''gems/ruby'')"
  "normalize_id_path (Some ''c_gems/ruby'') ''tag'' = ''c_gems/ruby''"
  by code_simp+

text \<open>
  Claim C1. The test \<open>_is_literal_identifier\<close> accepts exactly the strings of the
  strict \<open>namespace:path\<close> shape. A value of that shape is used verbatim; any other
  value is normalized as a path (fallback \<open>"generated"\<close>) and, if the normalized name is
  a declared item name or else a declared block name, qualified with the mod's id;
  otherwise it is qualified with \<open>minecraft\<close>. Every cross-referenced value the generator
  writes is resolved so: the output of a recipe, every key entry of a shaped recipe,
  every ingredient of a shapeless recipe, the input of a cooking recipe, and every
  value of a tag.
\<close>

theorem cross_reference_resolution:
  "(is_literal_identifier v \<longleftrightarrow> strict_namespace_path v) \<and>
   resolve_item_like_id v mod_id' items blocks =
     (if strict_namespace_path v then v
      else if normalize_id_path (Some v) ''generated'' \<in> items
        then mod_id' @ '':'' @ normalize_id_path (Some v) ''generated''
      else if normalize_id_path (Some v) ''generated'' \<in> blocks
        then mod_id' @ '':'' @ normalize_id_path (Some v) ''generated''
      else ''minecraft:'' @ normalize_id_path (Some v) ''generated'') \<and>
   (map_of props ''recipe_type'' = Some (JStr ''shaped'') \<and>
    map_of props ''output'' = Some (JStr out) \<and>
    map_of props ''identifier'' = Some (JStr ident) \<and>
    map_of props ''key'' = Some (JObj (map (\<lambda>(symbol, ref). (symbol, JStr ref)) key_items)) \<and>
    map_of props ''pattern'' = Some (JList pattern) \<and>
    map_of props ''count'' = Some (JInt count) \<longrightarrow>
    write_recipe data_dir mod_id' items blocks props =
      Inr (data_dir @ [fst (split_namespaced_id ident mod_id'), ''recipes'',
                       snd (split_namespaced_id ident mod_id') @ ''.json''],
           JObj [(''type'', JStr ''minecraft:crafting_shaped''),
                 (''pattern'', JList pattern),
                 (''key'', JObj (map (\<lambda>(symbol, ref).
                     (symbol, JObj [(''item'',
                        JStr (resolve_item_like_id ref mod_id' items blocks))])) key_items)),
                 (''result'', JObj [(''item'', JStr (resolve_item_like_id out mod_id' items blocks)),
                                    (''count'', JInt count)])])) \<and>
   (map_of props ''recipe_type'' = Some (JStr ''shapeless'') \<and>
    map_of props ''output'' = Some (JStr out) \<and>
    map_of props ''identifier'' = Some (JStr ident) \<and>
    map_of props ''ingredients'' = Some (JList (map JStr ingredients)) \<and>
    map_of props ''count'' = Some (JInt count) \<longrightarrow>
    write_recipe data_dir mod_id' items blocks props =
      Inr (data_dir @ [fst (split_namespaced_id ident mod_id'), ''recipes'',
                       snd (split_namespaced_id ident mod_id') @ ''.json''],
           JObj [(''type'', JStr ''minecraft:crafting_shapeless''),
                 (''ingredients'', JList (map (\<lambda>ref.
                     JObj [(''item'', JStr (resolve_item_like_id ref mod_id' items blocks))])
                     ingredients)),
                 (''result'', JObj [(''item'', JStr (resolve_item_like_id out mod_id' items blocks)),
                                    (''count'', JInt count)])])) \<and>
   (map_of props ''recipe_type'' = Some (JStr rt) \<and> rt \<noteq> ''shaped'' \<and> rt \<noteq> ''shapeless'' \<and>
    map_of props ''output'' = Some (JStr out) \<and>
    map_of props ''identifier'' = Some (JStr ident) \<and>
    map_of props ''input_item'' = Some (JStr input_item) \<and>
    map_of props ''experience'' = Some (JFloat experience) \<and>
    map_of props ''cooking_time'' = Some (JInt cooking_time) \<longrightarrow>
    write_recipe data_dir mod_id' items blocks props =
      Inr (data_dir @ [fst (split_namespaced_id ident mod_id'), ''recipes'',
                       snd (split_namespaced_id ident mod_id') @ ''.json''],
           JObj [(''type'', JStr (''minecraft:'' @ rt)),
                 (''ingredient'',
                    JObj [(''item'', JStr (resolve_item_like_id input_item mod_id' items blocks))]),
                 (''result'', JStr (resolve_item_like_id out mod_id' items blocks)),
                 (''experience'', JFloat experience),
                 (''cookingtime'', JInt cooking_time)])) \<and>
   (map_of tag_props ''values'' = Some (JList (map JStr vals)) \<and>
    map_of tag_props ''registry'' = Some reg \<and>
    map_of tag_props ''replace'' = Some (JBool rep) \<and>
    map_of tag_props ''namespace'' = Some (JStr ns) \<and>
    map_of tag_props ''identifier'' = Some (JStr tag_ident) \<longrightarrow>
    write_tag data_dir mod_id' items blocks tag_props =
      Inr (data_dir @ [ns, ''tags'', (if reg = JStr ''item'' then ''items'' else ''blocks''),
                       tag_ident @ ''.json''],
           JObj [(''replace'', JBool rep),
                 (''values'', JList (map (\<lambda>ref.
                     JStr (resolve_item_like_id ref mod_id' items blocks)) vals))]))"
proof -
  have res: "resolve_item_like_id v mod_id' items blocks =
     (if strict_namespace_path v then v
      else if normalize_id_path (Some v) ''generated'' \<in> items
        then mod_id' @ '':'' @ normalize_id_path (Some v) ''generated''
      else if normalize_id_path (Some v) ''generated'' \<in> blocks
        then mod_id' @ '':'' @ normalize_id_path (Some v) ''generated''
      else ''minecraft:'' @ normalize_id_path (Some v) ''generated'')"
    by (simp add: resolve_item_like_id_def is_literal_identifier_iff Let_def)
  have keys: "for_each (\<lambda>(symbol, item_ref).
               and_then (py_str item_ref) (\<lambda>ref.
                 Inr (symbol, JObj [(''item'', JStr (resolve_item_like_id ref mod_id' items blocks))])))
               (map (\<lambda>(symbol, ref). (symbol, JStr ref)) key_items) =
      Inr (map (\<lambda>(symbol, ref).
                     (symbol, JObj [(''item'',
                        JStr (resolve_item_like_id ref mod_id' items blocks))])) key_items)"
    by (induction key_items) (auto simp: and_then_def py_simps)
  have ings: "for_each (\<lambda>ingredient.
               and_then (py_str ingredient) (\<lambda>ref.
                 Inr (JObj [(''item'', JStr (resolve_item_like_id ref mod_id' items blocks))])))
               (map JStr ingredients) =
      Inr (map (\<lambda>ref. JObj [(''item'', JStr (resolve_item_like_id ref mod_id' items blocks))])
             ingredients)"
    by (induction ingredients) (auto simp: and_then_def py_simps)
  have vls: "for_each (\<lambda>v.
          and_then (py_str v) (\<lambda>ref.
            Inr (JStr (resolve_item_like_id ref mod_id' items blocks))))
          (map JStr vals) =
      Inr (map (\<lambda>ref. JStr (resolve_item_like_id ref mod_id' items blocks)) vals)"
    by (induction vals) (auto simp: and_then_def py_simps)
  have shaped: "write_recipe data_dir mod_id' items blocks props =
      Inr (data_dir @ [fst (split_namespaced_id ident mod_id'), ''recipes'',
                       snd (split_namespaced_id ident mod_id') @ ''.json''],
           JObj [(''type'', JStr ''minecraft:crafting_shaped''),
                 (''pattern'', JList pattern),
                 (''key'', JObj (map (\<lambda>(symbol, ref).
                     (symbol, JObj [(''item'',
                        JStr (resolve_item_like_id ref mod_id' items blocks))])) key_items)),
                 (''result'', JObj [(''item'', JStr (resolve_item_like_id out mod_id' items blocks)),
                                    (''count'', JInt count)])])"
    if "map_of props ''recipe_type'' = Some (JStr ''shaped'')"
      "map_of props ''output'' = Some (JStr out)"
      "map_of props ''identifier'' = Some (JStr ident)"
      "map_of props ''key'' = Some (JObj (map (\<lambda>(symbol, ref). (symbol, JStr ref)) key_items))"
      "map_of props ''pattern'' = Some (JList pattern)"
      "map_of props ''count'' = Some (JInt count)"
    by (simp add: write_recipe_def getitem_Some[OF that(1)] getitem_Some[OF that(2)]
        getitem_Some[OF that(3)] getitem_Some[OF that(4)] getitem_Some[OF that(5)]
        getitem_Some[OF that(6)] and_then_Inr py_simps keys Let_def split_beta)
  have shapeless: "write_recipe data_dir mod_id' items blocks props =
      Inr (data_dir @ [fst (split_namespaced_id ident mod_id'), ''recipes'',
                       snd (split_namespaced_id ident mod_id') @ ''.json''],
           JObj [(''type'', JStr ''minecraft:crafting_shapeless''),
                 (''ingredients'', JList (map (\<lambda>ref.
                     JObj [(''item'', JStr (resolve_item_like_id ref mod_id' items blocks))])
                     ingredients)),
                 (''result'', JObj [(''item'', JStr (resolve_item_like_id out mod_id' items blocks)),
                                    (''count'', JInt count)])])"
    if "map_of props ''recipe_type'' = Some (JStr ''shapeless'')"
      "map_of props ''output'' = Some (JStr out)"
      "map_of props ''identifier'' = Some (JStr ident)"
      "map_of props ''ingredients'' = Some (JList (map JStr ingredients))"
      "map_of props ''count'' = Some (JInt count)"
    by (simp add: write_recipe_def getitem_Some[OF that(1)] getitem_Some[OF that(2)]
        getitem_Some[OF that(3)] getitem_Some[OF that(4)] getitem_Some[OF that(5)]
        and_then_Inr py_simps ings Let_def split_beta)
  have cooking: "write_recipe data_dir mod_id' items blocks props =
      Inr (data_dir @ [fst (split_namespaced_id ident mod_id'), ''recipes'',
                       snd (split_namespaced_id ident mod_id') @ ''.json''],
           JObj [(''type'', JStr (''minecraft:'' @ rt)),
                 (''ingredient'',
                    JObj [(''item'', JStr (resolve_item_like_id input_item mod_id' items blocks))]),
                 (''result'', JStr (resolve_item_like_id out mod_id' items blocks)),
                 (''experience'', JFloat experience),
                 (''cookingtime'', JInt cooking_time)])"
    if "map_of props ''recipe_type'' = Some (JStr rt)" "rt \<noteq> ''shaped''" "rt \<noteq> ''shapeless''"
      "map_of props ''output'' = Some (JStr out)"
      "map_of props ''identifier'' = Some (JStr ident)"
      "map_of props ''input_item'' = Some (JStr input_item)"
      "map_of props ''experience'' = Some (JFloat experience)"
      "map_of props ''cooking_time'' = Some (JInt cooking_time)"
    using that(2,3)
    by (simp add: write_recipe_def getitem_Some[OF that(1)] getitem_Some[OF that(4)]
        getitem_Some[OF that(5)] getitem_Some[OF that(6)] getitem_Some[OF that(7)]
        getitem_Some[OF that(8)] and_then_Inr py_simps Let_def split_beta)
  have tag: "write_tag data_dir mod_id' items blocks tag_props =
      Inr (data_dir @ [ns, ''tags'', (if reg = JStr ''item'' then ''items'' else ''blocks''),
                       tag_ident @ ''.json''],
           JObj [(''replace'', JBool rep),
                 (''values'', JList (map (\<lambda>ref.
                     JStr (resolve_item_like_id ref mod_id' items blocks)) vals))])"
    if "map_of tag_props ''values'' = Some (JList (map JStr vals))"
      "map_of tag_props ''registry'' = Some reg"
      "map_of tag_props ''replace'' = Some (JBool rep)"
      "map_of tag_props ''namespace'' = Some (JStr ns)"
      "map_of tag_props ''identifier'' = Some (JStr tag_ident)"
    by (simp add: write_tag_def getitem_Some[OF that(1)] getitem_Some[OF that(2)]
        getitem_Some[OF that(3)] getitem_Some[OF that(4)] getitem_Some[OF that(5)]
        and_then_Inr py_simps vls Let_def)
  from is_literal_identifier_iff[of v] res shaped shapeless cooking tag
  show ?thesis by blast
qed


theorem cross_reference_resolution_witness:
  "resolve_item_like_id ''minecraft:emerald'' ''demo_mod'' {''ruby''} {''ruby_block''} =
     ''minecraft:emerald'' \<and>
   resolve_item_like_id ''ruby'' ''demo_mod'' {''ruby''} {''ruby_block''} = ''demo_mod:ruby'' \<and>
   resolve_item_like_id ''ruby_block'' ''demo_mod'' {''ruby''} {''ruby_block''} =
     ''demo_mod:ruby_block'' \<and>
   resolve_item_like_id ''Gold Ingot'' ''demo_mod'' {''ruby''} {''ruby_block''} =
     ''minecraft:gold_ingot'' \<and>
   FabricRecipe_init ''shaped'' ''ruby_block'' (Some ''ruby_block_from_ruby'') 1
     (Some [''RRR'', ''RRR'', ''RRR'']) (Some [(''R'', ''ruby'')]) None None 0 200 =
     Inr ruby_block_from_ruby \<and>
   write_recipe [''data''] ''demo_mod'' {''ruby''} {''ruby_block''} (properties ruby_block_from_ruby) =
     Inr ([''data'', ''demo_mod'', ''recipes'', ''ruby_block_from_ruby.json''],
          JObj [(''type'', JStr ''minecraft:crafting_shaped''),
                (''pattern'', JList [JStr ''RRR'', JStr ''RRR'', JStr ''RRR'']),
                (''key'', JObj [(''R'', JObj [(''item'', JStr ''demo_mod:ruby'')])]),
                (''result'', JObj [(''item'', JStr ''demo_mod:ruby_block''), (''count'', JInt 1)])]) \<and>
   write_recipe [''data''] ''demo_mod'' {''ruby''} {''ruby_block''}
     [(''identifier'', JStr ''ruby_mix''), (''recipe_type'', JStr ''shapeless''),
      (''output'', JStr ''ruby''), (''count'', JInt 2),
      (''ingredients'', JList (map JStr [''ruby_block'', ''minecraft:emerald'']))] =
     Inr ([''data'', ''demo_mod'', ''recipes'', ''ruby_mix.json''],
          JObj [(''type'', JStr ''minecraft:crafting_shapeless''),
                (''ingredients'', JList [JObj [(''item'', JStr ''demo_mod:ruby_block'')],
                                        JObj [(''item'', JStr ''minecraft:emerald'')]]),
                (''result'', JObj [(''item'', JStr ''demo_mod:ruby''), (''count'', JInt 2)])]) \<and>
   write_recipe [''data''] ''demo_mod'' {''ruby''} {''ruby_block''}
     [(''identifier'', JStr ''ruby_smelt''), (''recipe_type'', JStr ''smelting''),
      (''output'', JStr ''ruby''), (''input_item'', JStr ''Gold Ingot''),
      (''experience'', JFloat (7 / 10)), (''cooking_time'', JInt 200)] =
     Inr ([''data'', ''demo_mod'', ''recipes'', ''ruby_smelt.json''],
          JObj [(''type'', JStr ''minecraft:smelting''),
                (''ingredient'', JObj [(''item'', JStr ''minecraft:gold_ingot'')]),
                (''result'', JStr ''demo_mod:ruby''),
                (''experience'', JFloat (7 / 10)),
                (''cookingtime'', JInt 200)]) \<and>
   FabricTag_init demo_mod ''item'' ''c:gems/ruby'' [''ruby'', ''minecraft:emerald'', ''Gold Ingot''] False =
     Inr gems_ruby \<and>
   write_tag [''data''] ''demo_mod'' {''ruby''} {''ruby_block''} (properties gems_ruby) =
     Inr ([''data'', ''c'', ''tags'', ''items'', ''gems/ruby.json''],
          JObj [(''replace'', JBool False),
                (''values'', JList [JStr ''demo_mod:ruby'', JStr ''minecraft:emerald'',
                                   JStr ''minecraft:gold_ingot''])])"
proof -
  let ?I = "{''ruby''}" and ?B = "{''ruby_block''}"
  note T = cross_reference_resolution[where mod_id' = "''demo_mod''" and items = ?I and blocks = ?B
      and data_dir = "[''data'']"]
  have r1: "resolve_item_like_id ''minecraft:emerald'' ''demo_mod'' ?I ?B = ''minecraft:emerald''"
    using T[of "''minecraft:emerald''"] c1_eval by simp
  have r2: "resolve_item_like_id ''ruby'' ''demo_mod'' ?I ?B = ''demo_mod:ruby''"
    using T[of "''ruby''"] c1_eval by simp
  have r3: "resolve_item_like_id ''ruby_block'' ''demo_mod'' ?I ?B = ''demo_mod:ruby_block''"
    using T[of "''ruby_block''"] c1_eval by simp
  have r4: "resolve_item_like_id ''Gold Ingot'' ''demo_mod'' ?I ?B = ''minecraft:gold_ingot''"
    using T[of "''Gold Ingot''"] c1_eval by simp
  have i1: "FabricRecipe_init ''shaped'' ''ruby_block'' (Some ''ruby_block_from_ruby'') 1
     (Some [''RRR'', ''RRR'', ''RRR'']) (Some [(''R'', ''ruby'')]) None None 0 200 =
     Inr ruby_block_from_ruby"
    unfolding FabricRecipe_init_def c1_recipe_eval Let_def
    by (simp add: RECIPE_TYPES_def BaseElement_init_def truthy_def ruby_block_from_ruby_def
        opt_str_def)
  have i2: "FabricTag_init demo_mod ''item'' ''c:gems/ruby''
      [''ruby'', ''minecraft:emerald'', ''Gold Ingot''] False = Inr gems_ruby"
    unfolding FabricTag_init_def Let_def
    by (simp add: demo_mod_def c1_tag_eval BaseElement_init_def truthy_def gems_ruby_def)
  have w1: "write_recipe [''data''] ''demo_mod'' ?I ?B (properties ruby_block_from_ruby) =
     Inr ([''data'', ''demo_mod'', ''recipes'', ''ruby_block_from_ruby.json''],
          JObj [(''type'', JStr ''minecraft:crafting_shaped''),
                (''pattern'', JList [JStr ''RRR'', JStr ''RRR'', JStr ''RRR'']),
                (''key'', JObj [(''R'', JObj [(''item'', JStr ''demo_mod:ruby'')])]),
                (''result'', JObj [(''item'', JStr ''demo_mod:ruby_block''), (''count'', JInt 1)])])"
    using T[where props = "properties ruby_block_from_ruby" and out = "''ruby_block''"
        and ident = "''ruby_block_from_ruby''" and key_items = "[(''R'', ''ruby'')]"
        and pattern = "[JStr ''RRR'', JStr ''RRR'', JStr ''RRR'']" and count = 1]
    by (simp add: ruby_block_from_ruby_def c1_recipe_eval r2 r3)
  have w2: "write_recipe [''data''] ''demo_mod'' ?I ?B
     [(''identifier'', JStr ''ruby_mix''), (''recipe_type'', JStr ''shapeless''),
      (''output'', JStr ''ruby''), (''count'', JInt 2),
      (''ingredients'', JList (map JStr [''ruby_block'', ''minecraft:emerald'']))] =
     Inr ([''data'', ''demo_mod'', ''recipes'', ''ruby_mix.json''],
          JObj [(''type'', JStr ''minecraft:crafting_shapeless''),
                (''ingredients'', JList [JObj [(''item'', JStr ''demo_mod:ruby_block'')],
                                        JObj [(''item'', JStr ''minecraft:emerald'')]]),
                (''result'', JObj [(''item'', JStr ''demo_mod:ruby''), (''count'', JInt 2)])])"
  proof -
    have sp: "split_namespaced_id ''ruby_mix'' ''demo_mod'' = (''demo_mod'', ''ruby_mix'')"
      by code_simp
    show ?thesis
      using T[where props = "[(''identifier'', JStr ''ruby_mix''), (''recipe_type'', JStr ''shapeless''),
        (''output'', JStr ''ruby''), (''count'', JInt 2),
        (''ingredients'', JList (map JStr [''ruby_block'', ''minecraft:emerald'']))]"
        and out = "''ruby''" and ident = "''ruby_mix''"
        and ingredients = "[''ruby_block'', ''minecraft:emerald'']" and count = 2]
      by (simp add: sp r1 r2 r3)
  qed
  have w3: "write_recipe [''data''] ''demo_mod'' ?I ?B
     [(''identifier'', JStr ''ruby_smelt''), (''recipe_type'', JStr ''smelting''),
      (''output'', JStr ''ruby''), (''input_item'', JStr ''Gold Ingot''),
      (''experience'', JFloat (7 / 10)), (''cooking_time'', JInt 200)] =
     Inr ([''data'', ''demo_mod'', ''recipes'', ''ruby_smelt.json''],
          JObj [(''type'', JStr ''minecraft:smelting''),
                (''ingredient'', JObj [(''item'', JStr ''minecraft:gold_ingot'')]),
                (''result'', JStr ''demo_mod:ruby''),
                (''experience'', JFloat (7 / 10)),
                (''cookingtime'', JInt 200)])"
  proof -
    have sp: "split_namespaced_id ''ruby_smelt'' ''demo_mod'' = (''demo_mod'', ''ruby_smelt'')"
      by code_simp
    show ?thesis
      using T[where props = "[(''identifier'', JStr ''ruby_smelt''), (''recipe_type'', JStr ''smelting''),
        (''output'', JStr ''ruby''), (''input_item'', JStr ''Gold Ingot''),
        (''experience'', JFloat (7 / 10)), (''cooking_time'', JInt 200)]"
        and rt = "''smelting''" and out = "''ruby''" and ident = "''ruby_smelt''"
        and input_item = "''Gold Ingot''" and experience = "7 / 10" and cooking_time = 200]
      by (simp add: sp r2 r4)
  qed
  have w4: "write_tag [''data''] ''demo_mod'' ?I ?B (properties gems_ruby) =
     Inr ([''data'', ''c'', ''tags'', ''items'', ''gems/ruby.json''],
          JObj [(''replace'', JBool False),
                (''values'', JList [JStr ''demo_mod:ruby'', JStr ''minecraft:emerald'',
                                   JStr ''minecraft:gold_ingot''])])"
    using T[where tag_props = "properties gems_ruby"
        and vals = "[''ruby'', ''minecraft:emerald'', ''Gold Ingot'']" and reg = "JStr ''item''"
        and rep = False and ns = "''c''" and tag_ident = "''gems/ruby''"]
    by (simp add: gems_ruby_def r1 r2 r4)
  from r1 r2 r3 r4 i1 w1 w2 w3 i2 w4 show ?thesis by blast
qed

section \<open>C2: compiling twice\<close>









































end
